theory Spec2Isabelle
  imports Complex_Main
begin

section \<open>Numbers of the ADR server\<close>

text \<open>
  The server state holds Python floats. A field is either a number or the object
  \<^verbatim>\<open>numpy.nan\<close>, which \<^verbatim>\<open>__init__\<close> and the failure branches of
  \<^verbatim>\<open>updateState\<close> store. Numbers are taken as reals (rounding and infinities are
  left out), and the unit tags of \<^verbatim>\<open>labrad.units\<close> are dropped: arithmetic is on
  magnitudes. Arithmetic with NaN gives NaN, every comparison with NaN is false.
\<close>

datatype pyfloat = NaN | Fin real

datatype error = ZeroDivisionError | TypeError

fun fadd :: "pyfloat \<Rightarrow> pyfloat \<Rightarrow> pyfloat" where
  "fadd (Fin a) (Fin b) = Fin (a + b)"
| "fadd _ _ = NaN"

fun fsub :: "pyfloat \<Rightarrow> pyfloat \<Rightarrow> pyfloat" where
  "fsub (Fin a) (Fin b) = Fin (a - b)"
| "fsub _ _ = NaN"

fun fmul :: "pyfloat \<Rightarrow> pyfloat \<Rightarrow> pyfloat" where
  "fmul (Fin a) (Fin b) = Fin (a * b)"
| "fmul _ _ = NaN"

text \<open>Python float division raises on a zero divisor, whatever the dividend.\<close>

fun fdiv :: "pyfloat \<Rightarrow> pyfloat \<Rightarrow> error + pyfloat" where
  "fdiv (Fin a) (Fin b) = (if b = 0 then Inl ZeroDivisionError else Inr (Fin (a / b)))"
| "fdiv NaN (Fin b) = (if b = 0 then Inl ZeroDivisionError else Inr NaN)"
| "fdiv _ NaN = Inr NaN"

fun fabs :: "pyfloat \<Rightarrow> pyfloat" where
  "fabs (Fin a) = Fin \<bar>a\<bar>"
| "fabs NaN = NaN"

fun flt :: "pyfloat \<Rightarrow> pyfloat \<Rightarrow> bool" where
  "flt (Fin a) (Fin b) = (a < b)"
| "flt _ _ = False"

fun fle :: "pyfloat \<Rightarrow> pyfloat \<Rightarrow> bool" where
  "fle (Fin a) (Fin b) = (a \<le> b)"
| "fle _ _ = False"

fun fgt :: "pyfloat \<Rightarrow> pyfloat \<Rightarrow> bool" where
  "fgt (Fin a) (Fin b) = (a > b)"
| "fgt _ _ = False"

fun feq :: "pyfloat \<Rightarrow> pyfloat \<Rightarrow> bool" where
  "feq (Fin a) (Fin b) = (a = b)"
| "feq _ _ = False"

text \<open>
  Python's \<^verbatim>\<open>max(a, b)\<close> keeps \<^verbatim>\<open>a\<close> unless \<^verbatim>\<open>b > a\<close>;
  \<^verbatim>\<open>min(a, b)\<close> keeps \<^verbatim>\<open>a\<close> unless \<^verbatim>\<open>b < a\<close>.
\<close>

definition py_max :: "pyfloat \<Rightarrow> pyfloat \<Rightarrow> pyfloat" where
  "py_max a b = (if fgt b a then b else a)"

definition py_min :: "pyfloat \<Rightarrow> pyfloat \<Rightarrow> pyfloat" where
  "py_min a b = (if flt b a then b else a)"

text \<open>The test \<^verbatim>\<open>x is numpy.nan\<close>.\<close>

fun is_numpy_nan :: "pyfloat \<Rightarrow> bool" where
  "is_numpy_nan NaN = True"
| "is_numpy_nan (Fin _) = False"

section \<open>Time\<close>

text \<open>
  A \<^verbatim>\<open>datetime\<close> is a count of microseconds; the difference of two is a
  normalised \<^verbatim>\<open>timedelta\<close> (seconds in 0..86399, microseconds in 0..999999).
\<close>

type_synonym datetime = int

record timedelta =
  days :: int
  seconds :: int
  microseconds :: int

definition datetime_sub :: "datetime \<Rightarrow> datetime \<Rightarrow> timedelta" where
  "datetime_sub a b =
     \<lparr> days = (a - b) div 86400000000,
       seconds = ((a - b) mod 86400000000) div 1000000,
       microseconds = (a - b) mod 1000000 \<rparr>"

definition deltaT :: "timedelta \<Rightarrow> real" where
  "deltaT dT = real_of_int (days dT * 86400 + seconds dT)
               + real_of_int (microseconds dT) * (1 / 10 ^ 6)"

section \<open>Data model\<close>

datatype channel = FAA | GGG

record state =
  T_FAA :: pyfloat
  T_GGG :: pyfloat
  T_3K :: pyfloat
  T_60K :: pyfloat
  datetime :: datetime
  cycle :: int
  magnetV :: pyfloat
  RuOxChan :: channel
  RuOxChanSetTime :: datetime
  PSCurrent :: pyfloat
  PSVoltage :: pyfloat
  PSConnected :: bool
  DiodeTempMonitorConnected :: bool
  RuoxTempMonitorConnected :: bool
  MagnetVMonitorConnected :: bool
  maggingUp :: bool
  regulating :: bool
  regulationTemp :: real
  PID_cumulativeError :: pyfloat

record settings =
  PID_KP :: real
  PID_KI :: real
  PID_KD :: real
  magup_dV :: real
  magnet_voltage_limit :: real
  current_limit :: real
  voltage_limit :: real
  dVdT_limit :: real
  dIdt_magup_limit :: real
  dIdt_regulate_limit :: real
  step_length :: real

text \<open>
  The text of a log message, one constructor per message of the source, with the values
  it prints. The stored entry pairs the time of logging (the strftime prefix) and the
  text with the alert flag.
\<close>

datatype logtext =
    PSConnectedMsg
  | PSNotConnectedMsg
  | RuoxConnectedMsg
  | RuoxNotConnectedMsg
  | DiodeConnectedMsg
  | DiodeNotConnectedMsg
  | MagnetVConnectedMsg
  | MagUpStoppedAt pyfloat
  | AlreadyMaggingUp
  | CurrentlyRegulating
  | CannotMagUp bool bool
  | BeginningMagUp real
  | FinishedMaggingUp pyfloat
  | PIDStoppedAt pyfloat
  | CurrentlyMaggingUp
  | SettingRegulationTemp real
  | CannotRegulate bool bool bool bool
  | StartingRegulation real pyfloat
  | FAANotValid
  | RegulationCompleted
  | UserMessage string
  | KPSet real
  | KISet real
  | KDSet real

type_synonym log_entry = "(datetime \<times> logtext) \<times> bool"

datatype reason = Cancel | Done

datatype named_message =
    StateChanged
  | MagUpStarted
  | MagUpStopped reason
  | RegulationStarted
  | RegulationStopped reason

text \<open>
  The server object: both snapshots, the settings, the in-memory log, and two output
  traces, the voltages passed to \<^verbatim>\<open>self.ps.voltage(v)\<close> and the named messages
  sent, both oldest first. The tail of \<^verbatim>\<open>logMessage\<close> after its first registry
  call (the text file line and the Log Changed message) runs later and is left out, as
  is the temperature file. Each step below is one run of the server between two
  suspension points; every \<^verbatim>\<open>datetime.now()\<close> inside it reads the step's time.
\<close>

record server =
  state :: state
  lastState :: state
  ADRSettings :: settings
  logMessages :: "log_entry list"
  ps_writes :: "pyfloat list"
  sent :: "named_message list"

definition default_settings :: settings where
  "default_settings =
     \<lparr> PID_KP = 2, PID_KI = 0, PID_KD = 70, magup_dV = 0.003,
       magnet_voltage_limit = 0.1, current_limit = 9, voltage_limit = 2,
       dVdT_limit = 0.008, dIdt_magup_limit = 9 / (30 * 60),
       dIdt_regulate_limit = 9 / (40 * 60), step_length = 1 \<rparr>"

definition init_state :: "datetime \<Rightarrow> state" where
  "init_state now =
     \<lparr> T_FAA = NaN, T_GGG = NaN, T_3K = NaN, T_60K = NaN, datetime = now, cycle = 0,
       magnetV = NaN, RuOxChan = FAA, RuOxChanSetTime = now, PSCurrent = NaN,
       PSVoltage = NaN, PSConnected = False, DiodeTempMonitorConnected = False,
       RuoxTempMonitorConnected = False, MagnetVMonitorConnected = False,
       maggingUp = False, regulating = False, regulationTemp = 0.1,
       PID_cumulativeError = Fin 0 \<rparr>"

definition init_server :: "datetime \<Rightarrow> server" where
  "init_server now =
     \<lparr> state = init_state now, lastState = init_state now,
       ADRSettings = default_settings, logMessages = [], ps_writes = [], sent = [] \<rparr>"

section \<open>Logger\<close>

definition logMessage :: "datetime \<Rightarrow> logtext \<Rightarrow> bool \<Rightarrow> server \<Rightarrow> server" where
  "logMessage now message alert sv =
     sv\<lparr> logMessages := logMessages sv @ [((now, message), alert)] \<rparr>"

text \<open>
  \<^verbatim>\<open>xs[-n:]\<close>: for \<^verbatim>\<open>n > 0\<close> the slice starts \<^verbatim>\<open>n\<close> from the end (at
  the front when the list is shorter), for \<^verbatim>\<open>n = 0\<close> it is the whole list, for
  \<^verbatim>\<open>n < 0\<close> it starts at index \<^verbatim>\<open>-n\<close>.
\<close>

definition slice_from_neg :: "'a list \<Rightarrow> int \<Rightarrow> 'a list" where
  "slice_from_neg xs n =
     (if n > 0 then drop (length xs - nat n) xs else drop (nat (- n)) xs)"

text \<open>
  The argument of \<^verbatim>\<open>getLog\<close>. The setting declares \<^verbatim>\<open>n=['v']\<close>, a LabRAD
  real, so a count sent by a client arrives as a float; the default of an omitted
  argument is the integer 0, and a direct call can pass an integer.
\<close>

datatype pynum = PyInt int | PyFloat real

fun num_val :: "pynum \<Rightarrow> real" where
  "num_val (PyInt i) = real_of_int i"
| "num_val (PyFloat x) = x"

text \<open>
  \<^verbatim>\<open>n == 0\<close> compares the values. \<^verbatim>\<open>min(n, len(...))\<close> keeps \<^verbatim>\<open>n\<close>, with its
  type, unless the length is smaller. A slice bound that is a float raises
  \<^verbatim>\<open>TypeError\<close>.
\<close>

definition getLog :: "server \<Rightarrow> pynum \<Rightarrow> error + log_entry list" where
  "getLog sv n0 =
     (let len = int (length (logMessages sv));
          n1 = (if num_val n0 = 0 then PyInt len else n0);
          n2 = (if real_of_int len < num_val n1 then PyInt len else n1)
      in case n2 of
           PyInt k \<Rightarrow> Inr (slice_from_neg (logMessages sv) k)
         | PyFloat x \<Rightarrow> Inl TypeError)"

section \<open>Instrument connections\<close>

definition send_named_message :: "named_message \<Rightarrow> server \<Rightarrow> server" where
  "send_named_message m sv = sv\<lparr> sent := sent sv @ [m] \<rparr>"

definition ps_voltage_set :: "pyfloat \<Rightarrow> server \<Rightarrow> server" where
  "ps_voltage_set v sv = sv\<lparr> ps_writes := ps_writes sv @ [v] \<rparr>"

text \<open>
  \<^verbatim>\<open>initializeInstruments\<close>: each of the four arguments says whether selecting that
  device succeeded. A failed magnet voltage monitor logs the diode monitor's text, as
  the source does.
\<close>

definition connect_ps :: "datetime \<Rightarrow> bool \<Rightarrow> server \<Rightarrow> server" where
  "connect_ps now ok sv =
     (if ok then
        (let sv1 = (if \<not> PSConnected (state sv) then logMessage now PSConnectedMsg False sv
                    else sv)
         in sv1\<lparr> state := (state sv1)\<lparr> PSConnected := True \<rparr> \<rparr>)
      else
        (let sv1 = logMessage now PSNotConnectedMsg True sv
         in sv1\<lparr> state := (state sv1)\<lparr> PSConnected := False \<rparr> \<rparr>))"

definition connect_ruox :: "datetime \<Rightarrow> bool \<Rightarrow> server \<Rightarrow> server" where
  "connect_ruox now ok sv =
     (if ok then
        (let sv1 = (if \<not> RuoxTempMonitorConnected (state sv)
                    then logMessage now RuoxConnectedMsg False sv else sv)
         in sv1\<lparr> state := (state sv1)\<lparr> RuoxTempMonitorConnected := True \<rparr> \<rparr>)
      else
        (let sv1 = logMessage now RuoxNotConnectedMsg True sv
         in sv1\<lparr> state := (state sv1)\<lparr> RuoxTempMonitorConnected := False \<rparr> \<rparr>))"

definition connect_diode :: "datetime \<Rightarrow> bool \<Rightarrow> server \<Rightarrow> server" where
  "connect_diode now ok sv =
     (if ok then
        (let sv1 = (if \<not> DiodeTempMonitorConnected (state sv)
                    then logMessage now DiodeConnectedMsg False sv else sv)
         in sv1\<lparr> state := (state sv1)\<lparr> DiodeTempMonitorConnected := True \<rparr> \<rparr>)
      else
        (let sv1 = logMessage now DiodeNotConnectedMsg True sv
         in sv1\<lparr> state := (state sv1)\<lparr> DiodeTempMonitorConnected := False \<rparr> \<rparr>))"

definition connect_magnetV :: "datetime \<Rightarrow> bool \<Rightarrow> server \<Rightarrow> server" where
  "connect_magnetV now ok sv =
     (if ok then
        (let sv1 = (if \<not> MagnetVMonitorConnected (state sv)
                    then logMessage now MagnetVConnectedMsg False sv else sv)
         in sv1\<lparr> state := (state sv1)\<lparr> MagnetVMonitorConnected := True \<rparr> \<rparr>)
      else
        (let sv1 = logMessage now DiodeNotConnectedMsg True sv
         in sv1\<lparr> state := (state sv1)\<lparr> MagnetVMonitorConnected := False \<rparr> \<rparr>))"

definition initializeInstruments ::
  "datetime \<Rightarrow> bool \<Rightarrow> bool \<Rightarrow> bool \<Rightarrow> bool \<Rightarrow> server \<Rightarrow> server" where
  "initializeInstruments now ps_ok ruox_ok diode_ok magnetV_ok sv =
     connect_magnetV now magnetV_ok
       (connect_diode now diode_ok (connect_ruox now ruox_ok (connect_ps now ps_ok sv)))"

section \<open>The state poller\<close>

text \<open>
  What the instruments answer during one cycle of \<^verbatim>\<open>updateState\<close>: every call
  either raises or returns a number.
\<close>

datatype 'a reading = Raises | Returns 'a

record poll_input =
  get_diode_temperatures :: "(real \<times> real) reading"
  get_time_constant :: "real reading"
  get_ruox_temperature :: "real reading"
  get_magnet_voltage :: "real reading"
  ps_current :: "real reading"
  ps_voltage :: "real reading"

definition read_diode :: "poll_input \<Rightarrow> state \<Rightarrow> state" where
  "read_diode inp st =
     (case get_diode_temperatures inp of
        Returns (t60, t3) \<Rightarrow> st\<lparr> T_60K := Fin t60, T_3K := Fin t3 \<rparr>
      | Raises \<Rightarrow> st\<lparr> T_60K := NaN, T_3K := NaN, DiodeTempMonitorConnected := False \<rparr>)"

definition ruox_failed :: "state \<Rightarrow> state" where
  "ruox_failed st = st\<lparr> T_GGG := NaN, T_FAA := NaN, RuoxTempMonitorConnected := False \<rparr>"

definition store_ruox :: "real \<Rightarrow> state \<Rightarrow> state" where
  "store_ruox t st =
     (let s1 = (case RuOxChan st of FAA \<Rightarrow> st\<lparr> T_FAA := Fin t \<rparr>
                                  | GGG \<Rightarrow> st\<lparr> T_GGG := Fin t \<rparr>);
          s2 = (if RuOxChan s1 = GGG then s1\<lparr> T_FAA := NaN \<rparr> else s1);
          s3 = (if RuOxChan s2 = FAA then s2\<lparr> T_GGG := NaN \<rparr> else s2);
          s4 = (if feq (T_GGG s3) (Fin 20) then s3\<lparr> T_GGG := NaN \<rparr> else s3);
          s5 = (if feq (T_FAA s4) (Fin 45) then s4\<lparr> T_FAA := NaN \<rparr> else s4)
      in s5)"

definition read_ruox :: "datetime \<Rightarrow> poll_input \<Rightarrow> state \<Rightarrow> state" where
  "read_ruox now inp st =
     (case get_time_constant inp of
        Raises \<Rightarrow> ruox_failed st
      | Returns timeConst \<Rightarrow>
          if deltaT (datetime_sub now (RuOxChanSetTime st)) \<ge> 10 * timeConst then
            (case get_ruox_temperature inp of
               Raises \<Rightarrow> ruox_failed st
             | Returns t \<Rightarrow> store_ruox t st)
          else st)"

definition read_magnetV :: "poll_input \<Rightarrow> state \<Rightarrow> state" where
  "read_magnetV inp st =
     (case get_magnet_voltage inp of
        Returns v \<Rightarrow> st\<lparr> magnetV := Fin v \<rparr>
      | Raises \<Rightarrow> st\<lparr> magnetV := NaN, MagnetVMonitorConnected := False \<rparr>)"

definition ps_failed :: "state \<Rightarrow> state" where
  "ps_failed st = st\<lparr> PSCurrent := NaN, PSVoltage := NaN, PSConnected := False \<rparr>"

definition read_ps :: "poll_input \<Rightarrow> state \<Rightarrow> state" where
  "read_ps inp st =
     (case ps_current inp of
        Raises \<Rightarrow> ps_failed st
      | Returns i \<Rightarrow>
          (case ps_voltage inp of
             Raises \<Rightarrow> ps_failed (st\<lparr> PSCurrent := Fin i \<rparr>)
           | Returns v \<Rightarrow> st\<lparr> PSCurrent := Fin i, PSVoltage := Fin v \<rparr>))"

definition updateState :: "datetime \<Rightarrow> poll_input \<Rightarrow> server \<Rightarrow> server" where
  "updateState now inp sv =
     (let st1 = read_diode inp (state sv);
          st2 = read_ruox now inp st1;
          st3 = st2\<lparr> datetime := now, cycle := cycle st2 + 1 \<rparr>;
          st4 = read_magnetV inp st3;
          st5 = read_ps inp st4
      in send_named_message StateChanged (sv\<lparr> lastState := state sv, state := st5 \<rparr>))"


section \<open>The mag-up controller\<close>

text \<open>The guard \<^verbatim>\<open>if dt == 0: dt = 0.0000000001\<close>.\<close>

definition dt_guard :: "real \<Rightarrow> real" where
  "dt_guard dt = (if dt = 0 then 1 / 10 ^ 10 else dt)"

definition elapsed :: "server \<Rightarrow> real" where
  "elapsed sv =
     dt_guard (deltaT (datetime_sub (datetime (state sv)) (datetime (lastState sv))))"

definition cancelMagUp :: "datetime \<Rightarrow> server \<Rightarrow> server" where
  "cancelMagUp now sv =
     (let sv1 = sv\<lparr> state := (state sv)\<lparr> maggingUp := False \<rparr> \<rparr>;
          sv2 = logMessage now (MagUpStoppedAt (PSCurrent (state sv1))) False sv1
      in send_named_message (MagUpStopped Cancel) sv2)"

text \<open>
  A call either returns the server it leaves behind or raises, leaving the server as
  it was at the raise.
\<close>

datatype outcome = Returned server | Raised error server

fun server_of :: "outcome \<Rightarrow> server" where
  "server_of (Returned sv) = sv"
| "server_of (Raised e sv) = sv"

text \<open>
  The condition of the inner \<^verbatim>\<open>if\<close> of the ramp loop; \<^verbatim>\<open>and\<close> evaluates its
  right operand only when the left one holds.
\<close>

definition magUp_may_raise_voltage :: "server \<Rightarrow> error + bool" where
  "magUp_may_raise_voltage sv =
     (let dI = fsub (PSCurrent (state sv)) (PSCurrent (lastState sv));
          dt = elapsed sv
      in if flt (magnetV (state sv)) (Fin (magnet_voltage_limit (ADRSettings sv))) then
           (case fdiv dI (Fin dt) of
              Inl e \<Rightarrow> Inl e
            | Inr rate \<Rightarrow> Inr (flt (fabs rate) (Fin (dIdt_magup_limit (ADRSettings sv)))))
         else Inr False)"

text \<open>One pass of \<^verbatim>\<open>while self.state['maggingUp']\<close>: the test and the body.\<close>

definition magUp_cycle :: "datetime \<Rightarrow> server \<Rightarrow> outcome" where
  "magUp_cycle now sv =
     (if \<not> maggingUp (state sv) then Returned sv
      else if flt (PSCurrent (state sv)) (Fin (current_limit (ADRSettings sv))) then
        (case magUp_may_raise_voltage sv of
           Inl e \<Rightarrow> Raised e sv
         | Inr False \<Rightarrow> Returned sv
         | Inr True \<Rightarrow>
             (let newVoltage = fadd (PSVoltage (state sv)) (Fin (magup_dV (ADRSettings sv)))
              in if flt newVoltage (Fin (voltage_limit (ADRSettings sv)))
                 then Returned (ps_voltage_set newVoltage sv)
                 else Returned (ps_voltage_set (Fin (voltage_limit (ADRSettings sv))) sv)))
      else
        (let sv1 = logMessage now (FinishedMaggingUp (PSCurrent (state sv))) False sv;
             sv2 = sv1\<lparr> state := (state sv1)\<lparr> maggingUp := False \<rparr> \<rparr>
         in Returned (send_named_message (MagUpStopped Done) sv2)))"

text \<open>
  \<^verbatim>\<open>_magUp\<close>: the guards, the start, and the first pass of the loop, which runs
  before the call is first suspended.
\<close>

definition magUp :: "datetime \<Rightarrow> server \<Rightarrow> outcome" where
  "magUp now sv =
     (if maggingUp (state sv) then Returned (logMessage now AlreadyMaggingUp False sv)
      else if regulating (state sv)
        then Returned (logMessage now CurrentlyRegulating False sv)
      else if \<not> PSConnected (state sv) \<or> \<not> MagnetVMonitorConnected (state sv)
        then Returned (logMessage now
               (CannotMagUp (PSConnected (state sv)) (MagnetVMonitorConnected (state sv)))
               True sv)
      else
        (let sv1 = send_named_message MagUpStarted sv;
             sv2 = logMessage now (BeginningMagUp (current_limit (ADRSettings sv1))) False sv1;
             sv3 = sv2\<lparr> state := (state sv2)\<lparr> maggingUp := True \<rparr> \<rparr>
         in magUp_cycle now sv3))"

section \<open>The regulation controller\<close>

definition cancelRegulate :: "datetime \<Rightarrow> server \<Rightarrow> server" where
  "cancelRegulate now sv =
     (let sv1 = sv\<lparr> state := (state sv)\<lparr> regulating := False \<rparr> \<rparr>;
          sv2 = logMessage now (PIDStoppedAt (PSCurrent (state sv1))) False sv1
      in send_named_message (RegulationStopped Cancel) sv2)"

text \<open>The raw proposal, from the accumulator as already updated.\<close>

definition pid_proposal :: "server \<Rightarrow> real \<Rightarrow> error + pyfloat" where
  "pid_proposal sv dT =
     (let T_target = Fin (regulationTemp (state sv));
          cfg = ADRSettings sv;
          p = fmul (Fin (PID_KP cfg)) (fsub T_target (T_FAA (state sv)));
          i = fmul (Fin (PID_KI cfg)) (PID_cumulativeError (state sv))
      in case fdiv (fmul (Fin (PID_KD cfg))
                     (fsub (T_FAA (lastState sv)) (T_FAA (state sv)))) (Fin dT) of
           Inl e \<Rightarrow> Inl e
         | Inr d \<Rightarrow> Inr (fadd (fadd p i) d))"

definition hard_current_limit :: "server \<Rightarrow> pyfloat \<Rightarrow> pyfloat" where
  "hard_current_limit sv dV =
     (if fgt (PSCurrent (state sv)) (Fin (current_limit (ADRSettings sv))) then
        (if fgt dV (Fin 0) then Fin 0 else dV)
      else dV)"

definition hard_voltage_limit :: "server \<Rightarrow> pyfloat \<Rightarrow> pyfloat" where
  "hard_voltage_limit sv dV =
     (if fgt (fadd (PSVoltage (state sv)) dV) (Fin (voltage_limit (ADRSettings sv)))
      then fsub (Fin (voltage_limit (ADRSettings sv))) (PSVoltage (state sv))
      else dV)"

definition steady_state_decreasing :: "server \<Rightarrow> pyfloat \<Rightarrow> pyfloat" where
  "steady_state_decreasing sv dV =
     (if flt dV (Fin 0) then
        (let dV1 = py_max dV (fsub (magnetV (state sv))
                                   (Fin (magnet_voltage_limit (ADRSettings sv))))
         in if fgt dV1 (Fin 0) then Fin 0 else dV1)
      else dV)"

definition steady_state_increasing :: "server \<Rightarrow> pyfloat \<Rightarrow> pyfloat" where
  "steady_state_increasing sv dV =
     (if fgt dV (Fin 0) then
        (let dV1 = py_min dV (fsub (Fin (magnet_voltage_limit (ADRSettings sv)))
                                   (magnetV (state sv)))
         in if flt dV1 (Fin 0) then Fin 0 else dV1)
      else dV)"

definition voltage_slew_limit :: "server \<Rightarrow> real \<Rightarrow> pyfloat \<Rightarrow> error + pyfloat" where
  "voltage_slew_limit sv dT dV =
     (case fdiv dV (Fin dT) of
        Inl e \<Rightarrow> Inl e
      | Inr rate \<Rightarrow>
          if fgt (fabs rate) (Fin (dVdT_limit (ADRSettings sv))) then
            (case fdiv dV (fabs dV) of
               Inl e \<Rightarrow> Inl e
             | Inr unit_dV \<Rightarrow>
                 Inr (fmul (fmul (Fin (dVdT_limit (ADRSettings sv))) (Fin dT)) unit_dV))
          else Inr dV)"

definition current_slew_limit ::
  "server \<Rightarrow> real \<Rightarrow> pyfloat \<Rightarrow> pyfloat \<Rightarrow> error + pyfloat" where
  "current_slew_limit sv dT dI dV =
     (case fdiv dI (Fin dT) of
        Inl e \<Rightarrow> Inl e
      | Inr rate \<Rightarrow>
          if fgt (fabs rate) (Fin (dIdt_regulate_limit (ADRSettings sv)))
          then Inr (Fin 0) else Inr dV)"

text \<open>The proposal and the clamps, in the order of the source.\<close>

definition clamped_dV :: "server \<Rightarrow> real \<Rightarrow> pyfloat \<Rightarrow> error + pyfloat" where
  "clamped_dV sv dT dI =
     (case pid_proposal sv dT of
        Inl e \<Rightarrow> Inl e
      | Inr dV0 \<Rightarrow>
          (case voltage_slew_limit sv dT
                  (steady_state_increasing sv
                    (steady_state_decreasing sv
                      (hard_voltage_limit sv (hard_current_limit sv dV0)))) of
             Inl e \<Rightarrow> Inl e
           | Inr dV5 \<Rightarrow> current_slew_limit sv dT dI dV5))"

text \<open>
  From \<^verbatim>\<open>runCycleAgain = True\<close> to the end of the loop body. The write of
  \<^verbatim>\<open>PSVoltage + dV\<close> is outside the \<^verbatim>\<open>if\<close>: when the voltage would go
  negative it follows the write of 0, with \<^verbatim>\<open>dV\<close> reset to 0.
\<close>

definition apply_dV :: "datetime \<Rightarrow> pyfloat \<Rightarrow> server \<Rightarrow> server" where
  "apply_dV now dV sv =
     (let goes_negative = fle (fadd (PSVoltage (state sv)) dV) (Fin 0);
          sv1 = (if goes_negative then ps_voltage_set (Fin 0) sv else sv);
          dV1 = (if goes_negative then Fin 0 else dV);
          runCycleAgain = \<not> goes_negative;
          sv2 = ps_voltage_set (fadd (PSVoltage (state sv1)) dV1) sv1
      in if runCycleAgain then sv2
         else
           (let sv3 = logMessage now RegulationCompleted False sv2;
                sv4 = sv3\<lparr> state := (state sv3)\<lparr> regulating := False \<rparr> \<rparr>
            in send_named_message (RegulationStopped Done) sv4))"

text \<open>
  The head of the loop body: the test of the FAA temperature, which logs and cancels
  but does not leave the body, and the update of the accumulator.
\<close>

definition regulate_accumulate :: "datetime \<Rightarrow> server \<Rightarrow> server" where
  "regulate_accumulate now sv =
     (let sv1 = (if is_numpy_nan (T_FAA (state sv))
                 then cancelRegulate now (logMessage now FAANotValid False sv)
                 else sv);
          err = fsub (Fin (regulationTemp (state sv1))) (T_FAA (state sv1))
      in sv1\<lparr> state := (state sv1)\<lparr> PID_cumulativeError :=
                   fadd (PID_cumulativeError (state sv1)) err \<rparr> \<rparr>)"

text \<open>One pass of \<^verbatim>\<open>while self.state['regulating']\<close>: the test and the body.\<close>

definition regulate_cycle :: "datetime \<Rightarrow> server \<Rightarrow> outcome" where
  "regulate_cycle now sv =
     (if \<not> regulating (state sv) then Returned sv
      else
        (let dI = fsub (PSCurrent (state sv)) (PSCurrent (lastState sv));
             sv2 = regulate_accumulate now sv
         in case clamped_dV sv2 (elapsed sv2) dI of
              Inl e \<Rightarrow> Raised e sv2
            | Inr dV \<Rightarrow> Returned (apply_dV now dV sv2)))"

text \<open>Lines 335 to 337: what an accepted start does before the loop.\<close>

definition regulate_begin :: "datetime \<Rightarrow> server \<Rightarrow> server" where
  "regulate_begin now sv =
     (let sv1 = send_named_message RegulationStarted sv;
          sv2 = logMessage now
                  (StartingRegulation (regulationTemp (state sv1)) (PSCurrent (state sv1)))
                  False sv1
      in sv2\<lparr> state := (state sv2)\<lparr> regulating := True \<rparr> \<rparr>)"

definition regulate_accepted :: "server \<Rightarrow> bool" where
  "regulate_accepted sv =
     (\<not> maggingUp (state sv) \<and> \<not> regulating (state sv) \<and> PSConnected (state sv)
      \<and> DiodeTempMonitorConnected (state sv) \<and> RuoxTempMonitorConnected (state sv)
      \<and> MagnetVMonitorConnected (state sv))"

definition regulate :: "datetime \<Rightarrow> real \<Rightarrow> server \<Rightarrow> outcome" where
  "regulate now temp sv =
     (if maggingUp (state sv) then Returned (logMessage now CurrentlyMaggingUp False sv)
      else if regulating (state sv) then
        Returned (logMessage now (SettingRegulationTemp temp) False
                   (sv\<lparr> state := (state sv)\<lparr> regulationTemp := temp \<rparr> \<rparr>))
      else if \<not> PSConnected (state sv) \<or> \<not> DiodeTempMonitorConnected (state sv)
              \<or> \<not> RuoxTempMonitorConnected (state sv)
              \<or> \<not> MagnetVMonitorConnected (state sv)
        then Returned (logMessage now
               (CannotRegulate (PSConnected (state sv)) (DiodeTempMonitorConnected (state sv))
                  (RuoxTempMonitorConnected (state sv)) (MagnetVMonitorConnected (state sv)))
               True sv)
      else regulate_cycle now (regulate_begin now sv))"

section \<open>The command surface and runs of the server\<close>

definition setPIDKP :: "datetime \<Rightarrow> real \<Rightarrow> server \<Rightarrow> server" where
  "setPIDKP now k sv =
     logMessage now (KPSet k) False (sv\<lparr> ADRSettings := (ADRSettings sv)\<lparr> PID_KP := k \<rparr> \<rparr>)"

definition setPIDKI :: "datetime \<Rightarrow> real \<Rightarrow> server \<Rightarrow> server" where
  "setPIDKI now k sv =
     logMessage now (KISet k) False (sv\<lparr> ADRSettings := (ADRSettings sv)\<lparr> PID_KI := k \<rparr> \<rparr>)"

definition setPIDKD :: "datetime \<Rightarrow> real \<Rightarrow> server \<Rightarrow> server" where
  "setPIDKD now k sv =
     logMessage now (KDSet k) False (sv\<lparr> ADRSettings := (ADRSettings sv)\<lparr> PID_KD := k \<rparr> \<rparr>)"

definition addToLog :: "datetime \<Rightarrow> string option \<Rightarrow> server \<Rightarrow> server" where
  "addToLog now message sv =
     (case message of None \<Rightarrow> sv | Some m \<Rightarrow> logMessage now (UserMessage m) False sv)"

text \<open>
  What can happen to the server: the settings being loaded, a (re)connection of the
  instruments, a poll cycle, a command, or a suspended control loop waking up for its
  next pass. A loop that has ended does nothing when woken, which is the \<^verbatim>\<open>while\<close>
  test of the pass.
\<close>

datatype event =
    LoadDefaults settings
  | InitializeInstruments bool bool bool bool
  | UpdateState poll_input
  | MagUp
  | MagUpWakeup
  | CancelMagUp
  | Regulate real
  | RegulateWakeup
  | CancelRegulation
  | AddToLog "string option"
  | SetPIDKP real
  | SetPIDKI real
  | SetPIDKD real

fun step :: "server \<Rightarrow> datetime \<times> event \<Rightarrow> server" where
  "step sv (now, LoadDefaults cfg) = sv\<lparr> ADRSettings := cfg \<rparr>"
| "step sv (now, InitializeInstruments a b c d) = initializeInstruments now a b c d sv"
| "step sv (now, UpdateState inp) = updateState now inp sv"
| "step sv (now, MagUp) = server_of (magUp now sv)"
| "step sv (now, MagUpWakeup) = server_of (magUp_cycle now sv)"
| "step sv (now, CancelMagUp) = cancelMagUp now sv"
| "step sv (now, Regulate temp) = server_of (regulate now temp sv)"
| "step sv (now, RegulateWakeup) = server_of (regulate_cycle now sv)"
| "step sv (now, CancelRegulation) = cancelRegulate now sv"
| "step sv (now, AddToLog m) = addToLog now m sv"
| "step sv (now, SetPIDKP k) = setPIDKP now k sv"
| "step sv (now, SetPIDKI k) = setPIDKI now k sv"
| "step sv (now, SetPIDKD k) = setPIDKD now k sv"

definition run :: "datetime \<Rightarrow> (datetime \<times> event) list \<Rightarrow> server" where
  "run t0 evs = foldl step (init_server t0) evs"


section \<open>Observing one step\<close>

text \<open>What a step added to the log, to the messages sent and to the supply writes.\<close>

definition logged_since :: "server \<Rightarrow> server \<Rightarrow> log_entry list" where
  "logged_since sv sv' = drop (length (logMessages sv)) (logMessages sv')"

definition sent_since :: "server \<Rightarrow> server \<Rightarrow> named_message list" where
  "sent_since sv sv' = drop (length (sent sv)) (sent sv')"

definition written_since :: "server \<Rightarrow> server \<Rightarrow> pyfloat list" where
  "written_since sv sv' = drop (length (ps_writes sv)) (ps_writes sv')"

text \<open>
  The Ruox read of a poll cycle raises when the time constant cannot be read, or when
  the reader has settled and the temperature cannot be read.
\<close>

definition ruox_raises :: "datetime \<Rightarrow> poll_input \<Rightarrow> server \<Rightarrow> bool" where
  "ruox_raises now inp sv =
     (case get_time_constant inp of
        Raises \<Rightarrow> True
      | Returns timeConst \<Rightarrow>
          deltaT (datetime_sub now (RuOxChanSetTime (state sv))) \<ge> 10 * timeConst
          \<and> get_ruox_temperature inp = Raises)"

text \<open>
  The condition of the ramp: the back-EMF is below \<^verbatim>\<open>magnet_voltage_limit\<close> and
  \<open>|dI/dt|\<close> is below \<^verbatim>\<open>dIdt_magup_limit\<close>. A reading that is NaN is not below.
\<close>

definition ramp_allowed :: "server \<Rightarrow> bool" where
  "ramp_allowed sv =
     (case (magnetV (state sv), PSCurrent (state sv), PSCurrent (lastState sv)) of
        (Fin emf, Fin i, Fin i0) \<Rightarrow>
          emf < magnet_voltage_limit (ADRSettings sv)
          \<and> \<bar>(i - i0) / elapsed sv\<bar> < dIdt_magup_limit (ADRSettings sv)
      | _ \<Rightarrow> False)"

section \<open>Scenarios\<close>

text \<open>
  Poll inputs: every instrument answers (FAA temperature, supply current, supply
  voltage, back-EMF as given), none answers, only the Ruox monitor fails, only the
  power supply fails.
\<close>

definition poll_ok :: "real \<Rightarrow> real \<Rightarrow> real \<Rightarrow> real \<Rightarrow> poll_input" where
  "poll_ok t i v emf =
     \<lparr> get_diode_temperatures = Returns (60, 3), get_time_constant = Returns 1,
       get_ruox_temperature = Returns t, get_magnet_voltage = Returns emf,
       ps_current = Returns i, ps_voltage = Returns v \<rparr>"

definition poll_all_raise :: poll_input where
  "poll_all_raise =
     \<lparr> get_diode_temperatures = Raises, get_time_constant = Raises,
       get_ruox_temperature = Raises, get_magnet_voltage = Raises,
       ps_current = Raises, ps_voltage = Raises \<rparr>"

definition poll_ruox_fails :: "real \<Rightarrow> real \<Rightarrow> real \<Rightarrow> poll_input" where
  "poll_ruox_fails i v emf = (poll_ok 0 i v emf)\<lparr> get_ruox_temperature := Raises \<rparr>"

definition poll_ps_fails :: "real \<Rightarrow> real \<Rightarrow> poll_input" where
  "poll_ps_fails t emf = (poll_ok t 0 0 emf)\<lparr> ps_current := Raises \<rparr>"

text \<open>
  The instruments connect at time 0, and two poll cycles one second apart (at 10 s and
  11 s, past the settling time of the Ruox reader) read the same values.
\<close>

definition connect_and_poll ::
  "real \<Rightarrow> real \<Rightarrow> real \<Rightarrow> real \<Rightarrow> (datetime \<times> event) list" where
  "connect_and_poll t i v emf =
     [(0, InitializeInstruments True True True True),
      (10000000, UpdateState (poll_ok t i v emf)),
      (11000000, UpdateState (poll_ok t i v emf))]"

text \<open>Regulation is running when the Ruox monitor fails in the next poll cycle.\<close>

definition faa_lost :: server where
  "faa_lost = run 0 (connect_and_poll 0.05 5 1 0.05 @
     [(11500000, Regulate 0.1), (12000000, UpdateState (poll_ruox_fails 5 1 0.05))])"

text \<open>A mag-up is running when the power supply fails in the next poll cycle.\<close>

definition ps_lost :: server where
  "ps_lost = run 0 (connect_and_poll 0.05 5 1 0.05 @
     [(11500000, MagUp), (12000000, UpdateState (poll_ps_fails 0.05 0.05))])"

text \<open>Ten messages added to the log by clients, at times 1 to 10.\<close>

definition ten_entries :: server where
  "ten_entries = run 0 (map (\<lambda>i. (i, AddToLog (Some ''note''))) [1, 2, 3, 4, 5, 6, 7, 8, 9, 10])"

text \<open>
  After the two poll cycles a client starts regulation, or a mag-up, at 11.5 s; both
  are accepted and their first pass leaves the controller running.
\<close>

definition is_regulating :: server where
  "is_regulating = run 0 (connect_and_poll 0.05 5 1 0.05 @ [(11500000, Regulate 0.1)])"

definition is_magging :: server where
  "is_magging = run 0 (connect_and_poll 0.05 5 1 0.05 @ [(11500000, MagUp)])"

text \<open>A first regulation run of one pass, cancelled at 12 s.\<close>

definition after_first_run :: server where
  "after_first_run = run 0 (connect_and_poll 0.05 5 1 0.05 @
     [(11500000, Regulate 0.1), (12000000, CancelRegulation)])"

text \<open>The supply reads 2.5 V, above the voltage limit of 2 V, at 9 A.\<close>

definition over_limit :: server where
  "over_limit = run 0 (connect_and_poll 0.1 9 2.5 0.05)"

text \<open>The supply reads 5 mV and the stage is warmer than the target.\<close>

definition nearly_demagnetised :: server where
  "nearly_demagnetised = run 0 (connect_and_poll 0.2 0.1 0.005 0.05)"

text \<open>
  The scenario of the spec: a mag-up starts at 0 A and 0 V with a back-EMF of 0.05 V;
  and the same with a back-EMF of 0.1 V, at the limit.
\<close>

definition ramp_started :: server where
  "ramp_started = run 0 (connect_and_poll 0.05 0 0 0.05 @ [(11500000, MagUp)])"

definition ramp_held :: server where
  "ramp_held = run 0 (connect_and_poll 0.05 0 0 0.1 @ [(11500000, MagUp)])"

text \<open>
  States in which a pass of the regulation loop writes NaN to the supply. Regulation is
  running and: the Ruox monitor failed in the poll before the last one and answers again
  (\<open>faa_back\<close>); the power supply fails in the last poll (\<open>supply_lost\<close>). Or the pass
  that found the FAA temperature NaN has left the accumulator NaN, the instruments
  reconnect, two polls read values, and regulation is about to be started again
  (\<open>accumulator_lost\<close>).
\<close>

definition faa_back :: server where
  "faa_back = run 0 (connect_and_poll 0.05 5 1 0.05 @
     [(11500000, Regulate 0.1), (12000000, UpdateState (poll_ruox_fails 5 1 0.05)),
      (13000000, UpdateState (poll_ok 0.05 5 1 0.05))])"

definition supply_lost :: server where
  "supply_lost = run 0 (connect_and_poll 0.05 5 1 0.05 @
     [(11500000, Regulate 0.1), (12000000, UpdateState (poll_ps_fails 0.05 0.05))])"

definition accumulator_lost :: server where
  "accumulator_lost = run 0 (connect_and_poll 0.05 5 1 0.05 @
     [(11500000, Regulate 0.1), (12000000, UpdateState (poll_ruox_fails 5 1 0.05)),
      (12500000, RegulateWakeup), (13000000, InitializeInstruments True True True True),
      (14000000, UpdateState (poll_ok 0.05 5 1 0.05)),
      (15000000, UpdateState (poll_ok 0.05 5 1 0.05))])"

text \<open>
  The wall clock is set back by one second between two polls, with the supply at the
  voltage limit of 2 V.
\<close>

definition clock_set_back :: server where
  "clock_set_back = run 0
     [(0, InitializeInstruments True True True True),
      (11000000, UpdateState (poll_ok 0.2 5 2 0.05)),
      (10000000, UpdateState (poll_ok 0.2 5 2 0.05))]"

text \<open>
  Settings loaded from the registry with a negative \<^verbatim>\<open>dVdT_limit\<close> and the supply
  at the voltage limit of 2 V, and with a negative \<^verbatim>\<open>voltage_limit\<close> and a supply that
  reads below it.
\<close>

definition negative_slew_limit :: server where
  "negative_slew_limit = run 0
     ((0, LoadDefaults (default_settings\<lparr> dVdT_limit := - 1 \<rparr>))
      # connect_and_poll 0.2 5 2 0.05)"

definition negative_voltage_limit :: server where
  "negative_voltage_limit = run 0
     ((0, LoadDefaults (default_settings\<lparr> voltage_limit := - 1 \<rparr>))
      # connect_and_poll 0.1 5 (- 2) 0.05)"

section \<open>Facts about single operations\<close>

lemma dt_guard_nz: "dt_guard x \<noteq> 0"
  by (simp add: dt_guard_def)

lemma elapsed_nz: "elapsed sv \<noteq> 0"
  by (simp add: elapsed_def dt_guard_nz)

lemma fdiv_Fin_nz:
  "d \<noteq> 0 \<Longrightarrow> fdiv x (Fin d) = Inr (case x of NaN \<Rightarrow> NaN | Fin a \<Rightarrow> Fin (a / d))"
  by (cases x) simp_all

lemma apply_dV_log:
  "logMessages (apply_dV now dV sv) = logMessages sv @
     (if fle (fadd (PSVoltage (state sv)) dV) (Fin 0)
      then [((now, RegulationCompleted), False)] else [])"
  by (simp add: apply_dV_def logMessage_def send_named_message_def ps_voltage_set_def Let_def)

lemma apply_dV_sent:
  "sent (apply_dV now dV sv) = sent sv @
     (if fle (fadd (PSVoltage (state sv)) dV) (Fin 0) then [RegulationStopped Done] else [])"
  by (simp add: apply_dV_def logMessage_def send_named_message_def ps_voltage_set_def Let_def)

lemma apply_dV_writes:
  "ps_writes (apply_dV now dV sv) = ps_writes sv @
     (if fle (fadd (PSVoltage (state sv)) dV) (Fin 0)
      then [Fin 0, fadd (PSVoltage (state sv)) (Fin 0)]
      else [fadd (PSVoltage (state sv)) dV])"
  by (simp add: apply_dV_def logMessage_def send_named_message_def ps_voltage_set_def Let_def)

lemma state_apply_dV:
  "state (apply_dV now dV sv) =
     (state sv)\<lparr> regulating := regulating (state sv)
                   \<and> \<not> fle (fadd (PSVoltage (state sv)) dV) (Fin 0) \<rparr>"
  by (simp add: apply_dV_def logMessage_def send_named_message_def ps_voltage_set_def Let_def)


lemma apply_dV_done_iff:
  "(RegulationStopped Done \<in> set (sent_since sv (apply_dV now dV sv)))
     = fle (fadd (PSVoltage (state sv)) dV) (Fin 0)"
  by (simp add: sent_since_def apply_dV_sent)

section \<open>The log query\<close>

lemma getLog_zero: "num_val n = 0 \<Longrightarrow> getLog sv n = Inr (logMessages sv)"
  by (simp add: getLog_def slice_from_neg_def Let_def)

lemma getLog_int_pos:
  "0 < n \<Longrightarrow>
     getLog sv (PyInt n) = Inr (drop (length (logMessages sv) - nat n) (logMessages sv))"
  by (auto simp add: getLog_def slice_from_neg_def Let_def)

lemma getLog_float_pos:
  "0 < x \<Longrightarrow>
     getLog sv (PyFloat x) =
       (if real (length (logMessages sv)) < x then Inr (logMessages sv) else Inl TypeError)"
  by (simp add: getLog_def slice_from_neg_def Let_def)

lemma ten_entries_log:
  "logMessages ten_entries =
     [((1, UserMessage ''note''), False), ((2, UserMessage ''note''), False),
      ((3, UserMessage ''note''), False), ((4, UserMessage ''note''), False),
      ((5, UserMessage ''note''), False), ((6, UserMessage ''note''), False),
      ((7, UserMessage ''note''), False), ((8, UserMessage ''note''), False),
      ((9, UserMessage ''note''), False), ((10, UserMessage ''note''), False)]"
  by (simp add: ten_entries_def run_def init_server_def addToLog_def logMessage_def)

text \<open>
  Claim C9: what the code does where the claim fails. After ten log entries a client asks
  for the last five; the count arrives as the float 5.0, \<^verbatim>\<open>min\<close> keeps it, and the
  slice raises \<^verbatim>\<open>TypeError\<close>. The same call with the integer 5 returns the last five
  entries, oldest first.
\<close>

theorem getLog_float_raises:
  "length (logMessages ten_entries) = 10
   \<and> getLog ten_entries (PyFloat 5) = Inl TypeError
   \<and> getLog ten_entries (PyInt 5) = Inr
       [((6, UserMessage ''note''), False), ((7, UserMessage ''note''), False),
        ((8, UserMessage ''note''), False), ((9, UserMessage ''note''), False),
        ((10, UserMessage ''note''), False)]"
  by (simp add: getLog_float_pos getLog_int_pos ten_entries_log)

section \<open>Cancelling an idle controller\<close>

text \<open>
  Claim C7, as the spec states it, fails: on a server that has just been constructed,
  where neither controller is active, both cancel operations send their stop message
  with reason cancel.
\<close>

theorem cancel_when_idle_publishes:
  "\<not> maggingUp (state (init_server 0)) \<and> \<not> regulating (state (init_server 0))
   \<and> sent (cancelMagUp 5 (init_server 0)) = [MagUpStopped Cancel]
   \<and> sent (cancelRegulate 5 (init_server 0)) = [RegulationStopped Cancel]"
  by (simp add: cancelMagUp_def cancelRegulate_def logMessage_def send_named_message_def
      Let_def init_server_def init_state_def)

text \<open>
  Claim C7, amended. Cancelling a controller that is idle leaves the state as it is,
  logs one message without the alert flag, and sends the stop message with reason
  cancel all the same.
\<close>

theorem cancel_when_idle:
  "(\<not> maggingUp (state sv) \<longrightarrow>
      state (cancelMagUp now sv) = state sv
      \<and> logged_since sv (cancelMagUp now sv)
          = [((now, MagUpStoppedAt (PSCurrent (state sv))), False)]
      \<and> sent_since sv (cancelMagUp now sv) = [MagUpStopped Cancel])
   \<and> (\<not> regulating (state sv) \<longrightarrow>
      state (cancelRegulate now sv) = state sv
      \<and> logged_since sv (cancelRegulate now sv)
          = [((now, PIDStoppedAt (PSCurrent (state sv))), False)]
      \<and> sent_since sv (cancelRegulate now sv) = [RegulationStopped Cancel])"
  by (simp add: cancelMagUp_def cancelRegulate_def logMessage_def send_named_message_def
      logged_since_def sent_since_def Let_def)

theorem cancel_when_idle_witness:
  "\<not> maggingUp (state (init_server 0)) \<and> \<not> regulating (state (init_server 0))
   \<and> state (cancelMagUp 5 (init_server 0)) = state (init_server 0)
   \<and> sent_since (init_server 0) (cancelMagUp 5 (init_server 0)) = [MagUpStopped Cancel]
   \<and> state (cancelRegulate 5 (init_server 0)) = state (init_server 0)
   \<and> sent_since (init_server 0) (cancelRegulate 5 (init_server 0))
       = [RegulationStopped Cancel]"
  using cancel_when_idle [of "init_server 0" 5]
  by (simp add: init_server_def init_state_def)

section \<open>Mag-up with a lost supply current\<close>

text \<open>
  Claim C10. While magging up, a supply current that is NaN fails the comparison with
  \<^verbatim>\<open>current_limit\<close>, so the pass takes the completion branch: it logs the finished
  message with the NaN current, clears \<^verbatim>\<open>maggingUp\<close> and sends the stop message with
  reason done; nothing else changes, and nothing is written to the supply.
\<close>

theorem magUp_nan_current_done:
  assumes "maggingUp (state sv)" and "PSCurrent (state sv) = NaN"
  shows "magUp_cycle now sv = Returned
     (sv\<lparr> state := (state sv)\<lparr> maggingUp := False \<rparr>,
         logMessages := logMessages sv @ [((now, FinishedMaggingUp NaN), False)],
         sent := sent sv @ [MagUpStopped Done] \<rparr>)"
  using assms
  by (simp add: magUp_cycle_def logMessage_def send_named_message_def Let_def)

lemma ps_lost_facts:
  "maggingUp (state ps_lost)" "PSCurrent (state ps_lost) = NaN"
  "sent ps_lost = [StateChanged, StateChanged, MagUpStarted, StateChanged]"
  by code_simp+

theorem magUp_nan_current_done_witness:
  "maggingUp (state ps_lost) \<and> PSCurrent (state ps_lost) = NaN
   \<and> \<not> maggingUp (state (server_of (magUp_cycle 12500000 ps_lost)))
   \<and> sent (server_of (magUp_cycle 12500000 ps_lost))
       = [StateChanged, StateChanged, MagUpStarted, StateChanged, MagUpStopped Done]"
  using magUp_nan_current_done [OF ps_lost_facts(1) ps_lost_facts(2), of 12500000]
  by (simp add: ps_lost_facts)


section \<open>The poll cycle\<close>

lemma state_updateState:
  "state (updateState now inp sv) =
     read_ps inp (read_magnetV inp ((read_ruox now inp (read_diode inp (state sv)))
        \<lparr> datetime := now, cycle := cycle (read_ruox now inp (read_diode inp (state sv))) + 1 \<rparr>))"
  by (simp add: updateState_def send_named_message_def Let_def)

lemma lastState_updateState: "lastState (updateState now inp sv) = state sv"
  by (simp add: updateState_def send_named_message_def Let_def)

lemma read_ps_keeps:
  "T_FAA (read_ps inp st) = T_FAA st" "T_GGG (read_ps inp st) = T_GGG st"
  "T_3K (read_ps inp st) = T_3K st" "T_60K (read_ps inp st) = T_60K st"
  "datetime (read_ps inp st) = datetime st" "cycle (read_ps inp st) = cycle st"
  "magnetV (read_ps inp st) = magnetV st"
  "DiodeTempMonitorConnected (read_ps inp st) = DiodeTempMonitorConnected st"
  "RuoxTempMonitorConnected (read_ps inp st) = RuoxTempMonitorConnected st"
  "MagnetVMonitorConnected (read_ps inp st) = MagnetVMonitorConnected st"
  "maggingUp (read_ps inp st) = maggingUp st" "regulating (read_ps inp st) = regulating st"
  "PID_cumulativeError (read_ps inp st) = PID_cumulativeError st"
  by (simp_all add: read_ps_def ps_failed_def split: reading.splits)

lemma read_magnetV_keeps:
  "T_FAA (read_magnetV inp st) = T_FAA st" "T_GGG (read_magnetV inp st) = T_GGG st"
  "T_3K (read_magnetV inp st) = T_3K st" "T_60K (read_magnetV inp st) = T_60K st"
  "datetime (read_magnetV inp st) = datetime st" "cycle (read_magnetV inp st) = cycle st"
  "PSCurrent (read_magnetV inp st) = PSCurrent st" "PSVoltage (read_magnetV inp st) = PSVoltage st"
  "PSConnected (read_magnetV inp st) = PSConnected st"
  "DiodeTempMonitorConnected (read_magnetV inp st) = DiodeTempMonitorConnected st"
  "RuoxTempMonitorConnected (read_magnetV inp st) = RuoxTempMonitorConnected st"
  "maggingUp (read_magnetV inp st) = maggingUp st" "regulating (read_magnetV inp st) = regulating st"
  "PID_cumulativeError (read_magnetV inp st) = PID_cumulativeError st"
  by (simp_all add: read_magnetV_def split: reading.splits)

lemma read_ruox_keeps:
  "T_3K (read_ruox now inp st) = T_3K st" "T_60K (read_ruox now inp st) = T_60K st"
  "datetime (read_ruox now inp st) = datetime st" "cycle (read_ruox now inp st) = cycle st"
  "magnetV (read_ruox now inp st) = magnetV st"
  "PSCurrent (read_ruox now inp st) = PSCurrent st" "PSVoltage (read_ruox now inp st) = PSVoltage st"
  "PSConnected (read_ruox now inp st) = PSConnected st"
  "DiodeTempMonitorConnected (read_ruox now inp st) = DiodeTempMonitorConnected st"
  "MagnetVMonitorConnected (read_ruox now inp st) = MagnetVMonitorConnected st"
  "maggingUp (read_ruox now inp st) = maggingUp st" "regulating (read_ruox now inp st) = regulating st"
  "PID_cumulativeError (read_ruox now inp st) = PID_cumulativeError st"
  "RuOxChanSetTime (read_ruox now inp st) = RuOxChanSetTime st"
  by (simp_all add: read_ruox_def ruox_failed_def store_ruox_def Let_def
      split: reading.splits channel.splits)

lemma read_diode_keeps:
  "T_FAA (read_diode inp st) = T_FAA st" "T_GGG (read_diode inp st) = T_GGG st"
  "datetime (read_diode inp st) = datetime st" "cycle (read_diode inp st) = cycle st"
  "magnetV (read_diode inp st) = magnetV st"
  "PSCurrent (read_diode inp st) = PSCurrent st" "PSVoltage (read_diode inp st) = PSVoltage st"
  "PSConnected (read_diode inp st) = PSConnected st"
  "RuoxTempMonitorConnected (read_diode inp st) = RuoxTempMonitorConnected st"
  "MagnetVMonitorConnected (read_diode inp st) = MagnetVMonitorConnected st"
  "maggingUp (read_diode inp st) = maggingUp st" "regulating (read_diode inp st) = regulating st"
  "PID_cumulativeError (read_diode inp st) = PID_cumulativeError st"
  "RuOxChanSetTime (read_diode inp st) = RuOxChanSetTime st"
  "RuOxChan (read_diode inp st) = RuOxChan st"
  by (simp_all add: read_diode_def split: reading.splits prod.splits)

lemmas read_keeps = read_ps_keeps read_magnetV_keeps read_ruox_keeps read_diode_keeps

lemma read_diode_raises:
  "get_diode_temperatures inp = Raises \<Longrightarrow>
     T_60K (read_diode inp st) = NaN \<and> T_3K (read_diode inp st) = NaN
     \<and> \<not> DiodeTempMonitorConnected (read_diode inp st)"
  by (simp add: read_diode_def)

lemma read_diode_returns:
  "get_diode_temperatures inp = Returns (a, b) \<Longrightarrow>
     T_60K (read_diode inp st) = Fin a \<and> T_3K (read_diode inp st) = Fin b"
  by (simp add: read_diode_def)

lemma read_ruox_raises:
  "(case get_time_constant inp of Raises \<Rightarrow> True
    | Returns timeConst \<Rightarrow> deltaT (datetime_sub now (RuOxChanSetTime st)) \<ge> 10 * timeConst
                            \<and> get_ruox_temperature inp = Raises) \<Longrightarrow>
     T_GGG (read_ruox now inp st) = NaN \<and> T_FAA (read_ruox now inp st) = NaN
     \<and> \<not> RuoxTempMonitorConnected (read_ruox now inp st)"
  by (simp add: read_ruox_def ruox_failed_def split: reading.splits)

lemma read_ruox_returns:
  "get_time_constant inp = Returns timeConst \<Longrightarrow>
   10 * timeConst \<le> deltaT (datetime_sub now (RuOxChanSetTime st)) \<Longrightarrow>
   get_ruox_temperature inp = Returns t \<Longrightarrow>
     (case RuOxChan st of
        FAA \<Rightarrow> T_FAA (read_ruox now inp st) = (if t = 45 then NaN else Fin t)
               \<and> T_GGG (read_ruox now inp st) = NaN
      | GGG \<Rightarrow> T_GGG (read_ruox now inp st) = (if t = 20 then NaN else Fin t)
               \<and> T_FAA (read_ruox now inp st) = NaN)"
  by (simp add: read_ruox_def store_ruox_def Let_def split: channel.splits)

lemma read_magnetV_raises:
  "get_magnet_voltage inp = Raises \<Longrightarrow>
     magnetV (read_magnetV inp st) = NaN \<and> \<not> MagnetVMonitorConnected (read_magnetV inp st)"
  by (simp add: read_magnetV_def)

lemma read_magnetV_returns:
  "get_magnet_voltage inp = Returns v \<Longrightarrow> magnetV (read_magnetV inp st) = Fin v"
  by (simp add: read_magnetV_def)

lemma read_ps_raises:
  "ps_current inp = Raises \<or> ps_voltage inp = Raises \<Longrightarrow>
     PSCurrent (read_ps inp st) = NaN \<and> PSVoltage (read_ps inp st) = NaN
     \<and> \<not> PSConnected (read_ps inp st)"
  by (auto simp add: read_ps_def ps_failed_def split: reading.splits)

lemma read_ps_returns:
  "ps_current inp = Returns i \<Longrightarrow> ps_voltage inp = Returns v \<Longrightarrow>
     PSCurrent (read_ps inp st) = Fin i \<and> PSVoltage (read_ps inp st) = Fin v"
  by (simp add: read_ps_def)


text \<open>
  Claim C8. One poll cycle always takes the snapshot, stamps the time and adds one to the
  cycle counter. A read that raises sets its fields to NaN and clears its connected flag:
  the diode monitor, the Ruox monitor, the magnet voltage monitor, the power supply
  (whichever of its two reads raises). The other instruments are read in the same cycle:
  what the diode monitor, the magnet voltage monitor and the power supply return is
  stored whatever the other reads did, and so is the temperature of the settled Ruox
  reader, for the selected channel (its out-of-range value counts as NaN).
\<close>

theorem updateState_read_failures:
  "let st' = state (updateState now inp sv) in
      lastState (updateState now inp sv) = state sv
    \<and> datetime st' = now \<and> cycle st' = cycle (state sv) + 1
    \<and> (get_diode_temperatures inp = Raises \<longrightarrow>
         T_60K st' = NaN \<and> T_3K st' = NaN \<and> \<not> DiodeTempMonitorConnected st')
    \<and> (ruox_raises now inp sv \<longrightarrow>
         T_GGG st' = NaN \<and> T_FAA st' = NaN \<and> \<not> RuoxTempMonitorConnected st')
    \<and> (get_magnet_voltage inp = Raises \<longrightarrow>
         magnetV st' = NaN \<and> \<not> MagnetVMonitorConnected st')
    \<and> (ps_current inp = Raises \<or> ps_voltage inp = Raises \<longrightarrow>
         PSCurrent st' = NaN \<and> PSVoltage st' = NaN \<and> \<not> PSConnected st')
    \<and> (\<forall>a b. get_diode_temperatures inp = Returns (a, b) \<longrightarrow>
         T_60K st' = Fin a \<and> T_3K st' = Fin b)
    \<and> (\<forall>v. get_magnet_voltage inp = Returns v \<longrightarrow> magnetV st' = Fin v)
    \<and> (\<forall>i v. ps_current inp = Returns i \<and> ps_voltage inp = Returns v \<longrightarrow>
         PSCurrent st' = Fin i \<and> PSVoltage st' = Fin v)
    \<and> (\<forall>timeConst t. get_time_constant inp = Returns timeConst
           \<and> 10 * timeConst \<le> deltaT (datetime_sub now (RuOxChanSetTime (state sv)))
           \<and> get_ruox_temperature inp = Returns t \<longrightarrow>
         (case RuOxChan (state sv) of
            FAA \<Rightarrow> T_FAA st' = (if t = 45 then NaN else Fin t) \<and> T_GGG st' = NaN
          | GGG \<Rightarrow> T_GGG st' = (if t = 20 then NaN else Fin t) \<and> T_FAA st' = NaN))"
proof -
  have settled: "T_FAA (read_ruox now inp (read_diode inp (state sv))) = (if t = 45 then NaN else Fin t)
        \<and> T_GGG (read_ruox now inp (read_diode inp (state sv))) = NaN"
    if "get_time_constant inp = Returns timeConst"
      "10 * timeConst \<le> deltaT (datetime_sub now (RuOxChanSetTime (state sv)))"
      "get_ruox_temperature inp = Returns t" "RuOxChan (state sv) = FAA" for timeConst t
    using read_ruox_returns [of inp timeConst now "read_diode inp (state sv)" t] that
    by (simp add: read_diode_keeps)
  have settled': "T_GGG (read_ruox now inp (read_diode inp (state sv))) = (if t = 20 then NaN else Fin t)
        \<and> T_FAA (read_ruox now inp (read_diode inp (state sv))) = NaN"
    if "get_time_constant inp = Returns timeConst"
      "10 * timeConst \<le> deltaT (datetime_sub now (RuOxChanSetTime (state sv)))"
      "get_ruox_temperature inp = Returns t" "RuOxChan (state sv) = GGG" for timeConst t
    using read_ruox_returns [of inp timeConst now "read_diode inp (state sv)" t] that
    by (simp add: read_diode_keeps)
  have ruox: "ruox_raises now inp sv \<Longrightarrow>
      (case get_time_constant inp of Raises \<Rightarrow> True
       | Returns timeConst \<Rightarrow>
           deltaT (datetime_sub now (RuOxChanSetTime (read_diode inp (state sv))))
             \<ge> 10 * timeConst
           \<and> get_ruox_temperature inp = Raises)"
    by (simp add: ruox_raises_def read_keeps split: reading.splits)
  show ?thesis
    unfolding Let_def state_updateState lastState_updateState
    by (intro conjI impI allI)
       (simp_all add: read_keeps read_diode_raises read_diode_returns
          read_ruox_raises [OF ruox] read_magnetV_raises read_magnetV_returns
          read_ps_raises read_ps_returns settled settled' split: channel.splits)
qed

lemma settled_at_20s:
  "10 * 1 \<le> deltaT (datetime_sub 20000000 (RuOxChanSetTime (state (init_server 0))))"
  "RuOxChan (state (init_server 0)) = FAA"
  by code_simp+

theorem updateState_read_failures_witness:
  "T_60K (state (updateState 5 poll_all_raise (init_server 0))) = NaN
   \<and> T_FAA (state (updateState 5 poll_all_raise (init_server 0))) = NaN
   \<and> magnetV (state (updateState 5 poll_all_raise (init_server 0))) = NaN
   \<and> PSCurrent (state (updateState 5 poll_all_raise (init_server 0))) = NaN
   \<and> PSVoltage (state (updateState 5 poll_all_raise (init_server 0))) = NaN
   \<and> datetime (state (updateState 5 poll_all_raise (init_server 0))) = 5
   \<and> cycle (state (updateState 5 poll_all_raise (init_server 0))) = 1
   \<and> magnetV (state (updateState 5 (poll_ruox_fails 5 1 0.05) (init_server 0))) = Fin 0.05
   \<and> PSCurrent (state (updateState 5 (poll_ruox_fails 5 1 0.05) (init_server 0))) = Fin 5
   \<and> T_60K (state (updateState 5 (poll_ruox_fails 5 1 0.05) (init_server 0))) = Fin 60
   \<and> T_FAA (state (updateState 20000000 (poll_ps_fails 0.05 0.05) (init_server 0))) = Fin 0.05
   \<and> PSVoltage (state (updateState 20000000 (poll_ps_fails 0.05 0.05) (init_server 0))) = NaN"
proof -
  have c0: "cycle (state (init_server 0)) = 0"
    by (simp add: init_server_def init_state_def)
  have 1: "T_60K (state (updateState 5 poll_all_raise (init_server 0))) = NaN
   \<and> T_FAA (state (updateState 5 poll_all_raise (init_server 0))) = NaN
   \<and> magnetV (state (updateState 5 poll_all_raise (init_server 0))) = NaN
   \<and> PSCurrent (state (updateState 5 poll_all_raise (init_server 0))) = NaN
   \<and> PSVoltage (state (updateState 5 poll_all_raise (init_server 0))) = NaN
   \<and> datetime (state (updateState 5 poll_all_raise (init_server 0))) = 5
   \<and> cycle (state (updateState 5 poll_all_raise (init_server 0))) = 1"
    using updateState_read_failures [of 5 poll_all_raise "init_server 0"] c0
    by (simp add: Let_def poll_all_raise_def ruox_raises_def)
  have 2: "magnetV (state (updateState 5 (poll_ruox_fails 5 1 0.05) (init_server 0))) = Fin 0.05
   \<and> PSCurrent (state (updateState 5 (poll_ruox_fails 5 1 0.05) (init_server 0))) = Fin 5
   \<and> T_60K (state (updateState 5 (poll_ruox_fails 5 1 0.05) (init_server 0))) = Fin 60"
    using updateState_read_failures [of 5 "poll_ruox_fails 5 1 0.05" "init_server 0"]
    by (simp add: Let_def poll_ruox_fails_def poll_ok_def)
  have 3: "T_FAA (state (updateState 20000000 (poll_ps_fails 0.05 0.05) (init_server 0)))
        = Fin 0.05
   \<and> PSVoltage (state (updateState 20000000 (poll_ps_fails 0.05 0.05) (init_server 0))) = NaN"
    using updateState_read_failures [of 20000000 "poll_ps_fails 0.05 0.05" "init_server 0"]
      settled_at_20s
    by (simp add: Let_def poll_ps_fails_def poll_ok_def)
  show ?thesis
    using 1 2 3 by simp
qed

section \<open>Regulation without a temperature\<close>

lemma clamped_dV_nan:
  assumes "T_FAA (state sv) = NaN" "dT \<noteq> 0"
  shows "clamped_dV sv dT dI = Inr NaN \<or> clamped_dV sv dT dI = Inr (Fin 0)"
  using assms
  by (simp add: clamped_dV_def pid_proposal_def hard_current_limit_def hard_voltage_limit_def
      steady_state_decreasing_def steady_state_increasing_def voltage_slew_limit_def
      current_slew_limit_def fdiv_Fin_nz Let_def)

lemma accumulate_nan:
  assumes "T_FAA (state sv) = NaN"
  shows "T_FAA (state (regulate_accumulate now sv)) = NaN"
    "\<not> regulating (state (regulate_accumulate now sv))"
    "logMessages (regulate_accumulate now sv) = logMessages sv @
       [((now, FAANotValid), False), ((now, PIDStoppedAt (PSCurrent (state sv))), False)]"
    "sent (regulate_accumulate now sv) = sent sv @ [RegulationStopped Cancel]"
    "ps_writes (regulate_accumulate now sv) = ps_writes sv"
  using assms
  by (simp_all add: regulate_accumulate_def cancelRegulate_def logMessage_def
      send_named_message_def Let_def)

lemma faa_lost_facts:
  "regulating (state faa_lost)" "T_FAA (state faa_lost) = NaN"
  "PSCurrent (state faa_lost) = Fin 5"
  by code_simp+

text \<open>
  Claim C6, as the spec states it, fails: regulation is running, the Ruox monitor fails
  in a poll cycle and leaves the FAA temperature NaN, and the next pass of the loop logs
  two messages, neither with the alert flag.
\<close>

theorem regulate_nan_logs_no_alert:
  "regulating (state faa_lost) \<and> T_FAA (state faa_lost) = NaN
   \<and> logged_since faa_lost (server_of (regulate_cycle 12500000 faa_lost))
       = [((12500000, FAANotValid), False), ((12500000, PIDStoppedAt (Fin 5)), False)]"
  by code_simp

text \<open>
  Claim C6, amended. While regulating, a pass of the loop that finds the FAA temperature
  NaN returns with \<^verbatim>\<open>regulating\<close> cleared. The first two messages it logs are that
  the temperature is not valid and that the PID control stopped, the first message it
  sends is the stop with reason cancel, and no message logged in the pass has the alert
  flag.
\<close>

theorem regulate_nan_cancels:
  assumes "regulating (state sv)" and "T_FAA (state sv) = NaN"
  shows "\<exists>sv'. regulate_cycle now sv = Returned sv'
     \<and> \<not> regulating (state sv')
     \<and> take 2 (logged_since sv sv')
         = [((now, FAANotValid), False), ((now, PIDStoppedAt (PSCurrent (state sv))), False)]
     \<and> (\<forall>e \<in> set (logged_since sv sv'). \<not> snd e)
     \<and> take 1 (sent_since sv sv') = [RegulationStopped Cancel]"
proof -
  let ?sv2 = "regulate_accumulate now sv"
  let ?dI = "fsub (PSCurrent (state sv)) (PSCurrent (lastState sv))"
  note acc = accumulate_nan [OF assms(2), of now]
  obtain dV where dV: "clamped_dV ?sv2 (elapsed ?sv2) ?dI = Inr dV"
    using clamped_dV_nan [OF acc(1) elapsed_nz] by blast
  have cyc: "regulate_cycle now sv = Returned (apply_dV now dV ?sv2)"
    using assms(1) dV by (simp add: regulate_cycle_def Let_def)
  have 1: "\<not> regulating (state (apply_dV now dV ?sv2))"
    by (simp add: state_apply_dV acc(2))
  have 2: "logged_since sv (apply_dV now dV ?sv2) =
       [((now, FAANotValid), False), ((now, PIDStoppedAt (PSCurrent (state sv))), False)]
       @ (if fle (fadd (PSVoltage (state ?sv2)) dV) (Fin 0)
          then [((now, RegulationCompleted), False)] else [])"
    by (simp add: logged_since_def apply_dV_log acc(3))
  have 3: "sent_since sv (apply_dV now dV ?sv2) = RegulationStopped Cancel #
       (if fle (fadd (PSVoltage (state ?sv2)) dV) (Fin 0) then [RegulationStopped Done] else [])"
    by (simp add: sent_since_def apply_dV_sent acc(4))
  show ?thesis
    unfolding cyc using 1 by (simp add: 2 3)
qed

theorem regulate_nan_cancels_witness:
  "regulating (state faa_lost) \<and> T_FAA (state faa_lost) = NaN
   \<and> \<not> regulating (state (server_of (regulate_cycle 12500000 faa_lost)))
   \<and> take 2 (logged_since faa_lost (server_of (regulate_cycle 12500000 faa_lost)))
       = [((12500000, FAANotValid), False), ((12500000, PIDStoppedAt (Fin 5)), False)]
   \<and> take 1 (sent_since faa_lost (server_of (regulate_cycle 12500000 faa_lost)))
       = [RegulationStopped Cancel]"
proof -
  obtain sv' where sv': "regulate_cycle 12500000 faa_lost = Returned sv'"
    "\<not> regulating (state sv')"
    "take 2 (logged_since faa_lost sv')
       = [((12500000, FAANotValid), False),
          ((12500000, PIDStoppedAt (PSCurrent (state faa_lost))), False)]"
    "take 1 (sent_since faa_lost sv') = [RegulationStopped Cancel]"
    using regulate_nan_cancels [OF faa_lost_facts(1) faa_lost_facts(2), of 12500000] by blast
  show ?thesis
    using sv' by (simp add: faa_lost_facts)
qed

section \<open>The mode flags\<close>

lemma flags_logMessage [simp]:
  "state (logMessage now m a sv) = state sv"
  by (simp add: logMessage_def)

lemma flags_send [simp]: "state (send_named_message m sv) = state sv"
  by (simp add: send_named_message_def)

lemma flags_write [simp]: "state (ps_voltage_set v sv) = state sv"
  by (simp add: ps_voltage_set_def)

lemma connect_state:
  "state (connect_ps now ok sv) = (state sv)\<lparr> PSConnected := ok \<rparr>"
  "state (connect_ruox now ok sv) = (state sv)\<lparr> RuoxTempMonitorConnected := ok \<rparr>"
  "state (connect_diode now ok sv) = (state sv)\<lparr> DiodeTempMonitorConnected := ok \<rparr>"
  "state (connect_magnetV now ok sv) = (state sv)\<lparr> MagnetVMonitorConnected := ok \<rparr>"
  by (simp_all add: connect_ps_def connect_ruox_def connect_diode_def connect_magnetV_def
      Let_def)

lemma initializeInstruments_state:
  "state (initializeInstruments now a b c d sv) =
     (state sv)\<lparr> PSConnected := a, RuoxTempMonitorConnected := b,
                  DiodeTempMonitorConnected := c, MagnetVMonitorConnected := d \<rparr>"
  by (simp add: initializeInstruments_def connect_state)

lemma initializeInstruments_flags:
  "maggingUp (state (initializeInstruments now a b c d sv)) = maggingUp (state sv)"
  "regulating (state (initializeInstruments now a b c d sv)) = regulating (state sv)"
  by (simp_all add: initializeInstruments_state)

lemma updateState_flags:
  "maggingUp (state (updateState now inp sv)) = maggingUp (state sv)"
  "regulating (state (updateState now inp sv)) = regulating (state sv)"
  by (simp_all add: state_updateState read_keeps)

lemma magUp_cycle_flags:
  "regulating (state (server_of (magUp_cycle now sv))) = regulating (state sv)"
  "maggingUp (state (server_of (magUp_cycle now sv))) \<Longrightarrow> maggingUp (state sv)"
  by (simp_all add: magUp_cycle_def Let_def split: sum.splits bool.splits if_splits)

lemma magUp_rejected:
  "maggingUp (state sv) \<or> regulating (state sv) \<Longrightarrow>
     state (server_of (magUp now sv)) = state sv
     \<and> sent (server_of (magUp now sv)) = sent sv
     \<and> ps_writes (server_of (magUp now sv)) = ps_writes sv"
  by (auto simp add: magUp_def logMessage_def)

lemma magUp_regulating:
  "regulating (state (server_of (magUp now sv))) = regulating (state sv)"
  by (simp add: magUp_def magUp_cycle_flags(1) Let_def)

lemma magUp_maggingUp:
  "maggingUp (state (server_of (magUp now sv))) \<Longrightarrow> regulating (state sv) \<Longrightarrow>
     maggingUp (state sv)"
  using magUp_rejected [of sv now] by simp

lemma regulate_accumulate_flags:
  "maggingUp (state (regulate_accumulate now sv)) = maggingUp (state sv)"
  "regulating (state (regulate_accumulate now sv)) \<Longrightarrow> regulating (state sv)"
  by (simp_all add: regulate_accumulate_def cancelRegulate_def Let_def split: if_splits)

lemma regulate_cycle_maggingUp:
  "maggingUp (state (server_of (regulate_cycle now sv))) = maggingUp (state sv)"
  by (simp add: regulate_cycle_def state_apply_dV regulate_accumulate_flags(1) Let_def
      split: sum.splits)

lemma regulate_cycle_regulating:
  "regulating (state (server_of (regulate_cycle now sv))) \<Longrightarrow> regulating (state sv)"
  by (cases "regulating (state sv)") (simp_all add: regulate_cycle_def)

lemma regulate_rejected:
  "maggingUp (state sv) \<Longrightarrow>
     state (server_of (regulate now temp sv)) = state sv
     \<and> sent (server_of (regulate now temp sv)) = sent sv
     \<and> ps_writes (server_of (regulate now temp sv)) = ps_writes sv"
  by (auto simp add: regulate_def logMessage_def)

lemma regulate_maggingUp:
  "maggingUp (state (server_of (regulate now temp sv))) = maggingUp (state sv)"
  by (simp add: regulate_def regulate_begin_def regulate_cycle_maggingUp Let_def)

lemma step_exclusive:
  assumes "\<not> (maggingUp (state sv) \<and> regulating (state sv))"
  shows "\<not> (maggingUp (state (step sv (now, e))) \<and> regulating (state (step sv (now, e))))"
proof (cases e)
  case MagUp
  then show ?thesis
    using assms magUp_regulating [of now sv] magUp_maggingUp [of now sv] by auto
next
  case MagUpWakeup
  then show ?thesis
    using assms magUp_cycle_flags(1) [of now sv] magUp_cycle_flags(2) [of now sv] by auto
next
  case (Regulate temp)
  show ?thesis
  proof (cases "maggingUp (state sv)")
    case True
    then show ?thesis
      using assms regulate_rejected [of sv now temp] Regulate by simp
  next
    case False
    then show ?thesis
      using regulate_maggingUp [of now temp sv] Regulate by simp
  qed
next
  case RegulateWakeup
  then show ?thesis
    using assms regulate_cycle_maggingUp [of now sv] regulate_cycle_regulating [of now sv]
    by auto
next
  case (LoadDefaults cfg)
  then show ?thesis using assms by simp
next
  case (InitializeInstruments a b c d)
  then show ?thesis using assms by (simp add: initializeInstruments_flags)
next
  case (UpdateState inp)
  then show ?thesis using assms by (simp add: updateState_flags)
next
  case CancelMagUp
  then show ?thesis by (simp add: cancelMagUp_def Let_def)
next
  case CancelRegulation
  then show ?thesis by (simp add: cancelRegulate_def Let_def)
next
  case (AddToLog m)
  then show ?thesis using assms by (simp add: addToLog_def split: option.splits)
next
  case (SetPIDKP k)
  then show ?thesis using assms by (simp add: setPIDKP_def)
next
  case (SetPIDKI k)
  then show ?thesis using assms by (simp add: setPIDKI_def)
next
  case (SetPIDKD k)
  then show ?thesis using assms by (simp add: setPIDKD_def)
qed

lemma run_snoc: "run t0 (evs @ [e]) = step (run t0 evs) e"
  by (simp add: run_def)

lemma run_exclusive:
  "\<not> (maggingUp (state (run t0 evs)) \<and> regulating (state (run t0 evs)))"
proof (induction evs rule: rev_induct)
  case Nil
  show ?case by (simp add: run_def init_server_def init_state_def)
next
  case (snoc e evs)
  obtain now ev where e: "e = (now, ev)" by (cases e)
  show ?case unfolding run_snoc e by (rule step_exclusive [OF snoc])
qed


text \<open>
  Claim C1. After any sequence of events from the construction of the server,
  \<^verbatim>\<open>maggingUp\<close> and \<^verbatim>\<open>regulating\<close> are not both true. A mag-up start while
  regulating, and a regulation start while magging up, leave the state as it is and send
  no message.
\<close>

theorem mode_flags_exclusive:
  "\<not> (maggingUp (state (run t0 evs)) \<and> regulating (state (run t0 evs)))
   \<and> (regulating (state sv) \<longrightarrow>
        state (server_of (magUp now sv)) = state sv
        \<and> sent (server_of (magUp now sv)) = sent sv)
   \<and> (maggingUp (state sv') \<longrightarrow>
        state (server_of (regulate now' temp sv')) = state sv'
        \<and> sent (server_of (regulate now' temp sv')) = sent sv')"
  using run_exclusive [of t0 evs] magUp_rejected [of sv now] regulate_rejected [of sv' now' temp]
  by simp

lemma running_facts:
  "regulating (state is_regulating)" "maggingUp (state is_magging)"
  by code_simp+

theorem mode_flags_exclusive_witness:
  "regulating (state is_regulating) \<and> maggingUp (state is_magging)
   \<and> \<not> maggingUp (state is_regulating) \<and> \<not> regulating (state is_magging)
   \<and> \<not> maggingUp (state (server_of (magUp 12000000 is_regulating)))
   \<and> \<not> regulating (state (server_of (regulate 12000000 0.1 is_magging)))"
proof -
  note r = mode_flags_exclusive [of 0
      "connect_and_poll 0.05 5 1 0.05 @ [(11500000, Regulate 0.1)]"
      is_regulating 12000000 is_magging 12000000 "0.1", folded is_regulating_def]
  note m = mode_flags_exclusive [of 0
      "connect_and_poll 0.05 5 1 0.05 @ [(11500000, MagUp)]"
      is_regulating 12000000 is_magging 12000000 "0.1", folded is_magging_def]
  show ?thesis
    using r m running_facts by simp
qed

section \<open>The PID accumulator\<close>

text \<open>
  Claim C5, as the spec states it, fails: after a first regulation run of one pass has
  been cancelled, a second start is accepted and enters the loop with the accumulator
  the first run left, 0.05; its first pass brings it to 0.1.
\<close>

theorem accumulator_not_reset:
  "regulate_accepted after_first_run
   \<and> PID_cumulativeError (state (regulate_begin 13000000 after_first_run)) = Fin 0.05
   \<and> PID_cumulativeError (state (server_of (regulate 13000000 0.1 after_first_run))) = Fin 0.1"
  by code_simp

lemma regulate_cycle_accumulator:
  "regulating (state sv) \<Longrightarrow>
     PID_cumulativeError (state (server_of (regulate_cycle now sv)))
       = fadd (PID_cumulativeError (state sv))
              (fsub (Fin (regulationTemp (state sv))) (T_FAA (state sv)))"
  by (simp add: regulate_cycle_def state_apply_dV regulate_accumulate_def cancelRegulate_def
      Let_def split: sum.splits)

lemma regulate_begin_state:
  "state (regulate_begin now sv) = (state sv)\<lparr> regulating := True \<rparr>"
  by (simp add: regulate_begin_def Let_def)

text \<open>
  Claim C5, amended. The accumulator is zero when the server is constructed. An accepted
  regulation start does not reset it: it enters the loop with the accumulator unchanged,
  and after the first pass the accumulator is the old value plus the current error.
\<close>

theorem accumulator_kept_on_start:
  "PID_cumulativeError (state (init_server t0)) = Fin 0
   \<and> PID_cumulativeError (state (regulate_begin now sv)) = PID_cumulativeError (state sv)
   \<and> (regulate_accepted sv \<longrightarrow>
        PID_cumulativeError (state (server_of (regulate now temp sv)))
          = fadd (PID_cumulativeError (state sv))
                 (fsub (Fin (regulationTemp (state sv))) (T_FAA (state sv))))"
  by (simp add: init_server_def init_state_def regulate_begin_state regulate_accepted_def
      regulate_def regulate_cycle_accumulator)

lemma after_first_run_facts:
  "regulate_accepted after_first_run"
  "PID_cumulativeError (state after_first_run) = Fin 0.05"
  "T_FAA (state after_first_run) = Fin 0.05"
  "regulationTemp (state after_first_run) = 0.1"
  by code_simp+

theorem accumulator_kept_on_start_witness:
  "regulate_accepted after_first_run
   \<and> PID_cumulativeError (state (server_of (regulate 13000000 0.1 after_first_run))) = Fin 0.1"
  using accumulator_kept_on_start [of 0 13000000 after_first_run "0.1"]
  by (simp add: after_first_run_facts)

section \<open>The end of regulation\<close>

text \<open>
  Claim C3: what the code does where the claim fails. The proposed voltage goes
  negative (5 mV minus the slew-limited 8 mV), the pass ends regulation with reason
  done, and it writes 0 to the supply and then writes the measured 5 mV back, so the
  voltage left applied is not 0.
\<close>

theorem regulate_done_writes_back:
  "regulate_accepted nearly_demagnetised
   \<and> PSVoltage (state nearly_demagnetised) = Fin 0.005
   \<and> written_since nearly_demagnetised (step nearly_demagnetised (11500000, Regulate 0.1))
       = [Fin 0, Fin 0.005]
   \<and> sent_since nearly_demagnetised (step nearly_demagnetised (11500000, Regulate 0.1))
       = [RegulationStarted, RegulationStopped Done]
   \<and> \<not> regulating (state (step nearly_demagnetised (11500000, Regulate 0.1)))"
  by code_simp


section \<open>Elapsed time\<close>

lemma split_micros:
  fixes D :: int
  shows "(D div 86400000000 * 86400 + (D mod 86400000000) div 1000000) * 1000000
          + D mod 1000000 = D"
proof -
  define q where "q = D div 86400000000"
  define r where "r = D mod 86400000000"
  define s where "s = r div 1000000"
  define m where "m = D mod 1000000"
  have "r mod 1000000 = m"
    unfolding r_def m_def by (rule mod_mod_cancel) simp
  then have 1: "s * 1000000 = r - m"
    unfolding s_def using minus_mod_eq_div_mult [of r 1000000] by simp
  have 2: "q * 86400000000 = D - r"
    unfolding q_def r_def by (rule minus_mod_eq_div_mult [symmetric])
  have "(q * 86400 + s) * 1000000 = q * 86400000000 + s * 1000000"
    by (simp add: algebra_simps)
  with 1 2 have "(q * 86400 + s) * 1000000 + m = D"
    by linarith
  then show ?thesis
    by (simp only: q_def r_def s_def m_def)
qed

lemma datetime_sub_micros:
  "(days (datetime_sub a b) * 86400 + seconds (datetime_sub a b)) * 1000000
     + microseconds (datetime_sub a b) = a - b"
  unfolding datetime_sub_def by (simp only: timedelta.simps split_micros)

lemma deltaT_datetime_sub: "deltaT (datetime_sub a b) = real_of_int (a - b) / 1000000"
proof -
  have "real_of_int (a - b)
      = real_of_int ((days (datetime_sub a b) * 86400 + seconds (datetime_sub a b)) * 1000000
          + microseconds (datetime_sub a b))"
    by (simp only: datetime_sub_micros)
  also have "\<dots> = (real_of_int (days (datetime_sub a b) * 86400 + seconds (datetime_sub a b))) * 1000000
          + real_of_int (microseconds (datetime_sub a b))"
    by simp
  finally show ?thesis
    by (simp add: deltaT_def)
qed


lemma elapsed_pos:
  "datetime (lastState sv) \<le> datetime (state sv) \<Longrightarrow> 0 < elapsed sv"
  by (simp add: elapsed_def dt_guard_def deltaT_datetime_sub)

section \<open>The clamp cascade\<close>

lemma regulate_accumulate_keeps:
  "PSVoltage (state (regulate_accumulate now sv)) = PSVoltage (state sv)"
  "PSCurrent (state (regulate_accumulate now sv)) = PSCurrent (state sv)"
  "ADRSettings (regulate_accumulate now sv) = ADRSettings sv"
  "elapsed (regulate_accumulate now sv) = elapsed sv"
  "ps_writes (regulate_accumulate now sv) = ps_writes sv"
  by (simp_all add: regulate_accumulate_def cancelRegulate_def logMessage_def
      send_named_message_def elapsed_def Let_def)

lemma pid_proposal_number:
  assumes "T_FAA (state sv) = Fin t" and "T_FAA (lastState sv) = Fin t0"
    and "PID_cumulativeError (state sv) = Fin c" and "dT \<noteq> 0"
  shows "\<exists>d. pid_proposal sv dT = Inr (Fin d)"
  using assms by (simp add: pid_proposal_def Let_def)

lemma hard_current_limit_number: "\<exists>d. hard_current_limit sv (Fin a) = Fin d"
  by (simp add: hard_current_limit_def)

lemma hard_voltage_limit_number:
  "\<exists>d. hard_voltage_limit sv (Fin a) = Fin d
      \<and> (\<forall>p. PSVoltage (state sv) = Fin p \<longrightarrow> p + d \<le> voltage_limit (ADRSettings sv))"
  by (cases "PSVoltage (state sv)") (simp_all add: hard_voltage_limit_def)

lemma steady_state_decreasing_number:
  "\<exists>d. steady_state_decreasing sv (Fin a) = Fin d \<and> d \<le> max a 0"
  by (cases "magnetV (state sv)")
     (auto simp add: steady_state_decreasing_def py_max_def Let_def)

lemma steady_state_increasing_number:
  "\<exists>d. steady_state_increasing sv (Fin a) = Fin d \<and> d \<le> max a 0"
  by (cases "magnetV (state sv)")
     (auto simp add: steady_state_increasing_def py_min_def Let_def)

lemma clamped_rate:
  fixes a S dT :: real
  assumes "dT \<noteq> 0" "0 \<le> S" "S < \<bar>a / dT\<bar>"
  shows "a \<noteq> 0" and "\<bar>S * dT * (a / \<bar>a\<bar>) / dT\<bar> = S"
    and "0 < dT \<Longrightarrow> S * dT * (a / \<bar>a\<bar>) \<le> max a 0"
proof -
  show nz: "a \<noteq> 0" using assms by auto
  have one: "\<bar>a / \<bar>a\<bar>\<bar> = 1" using nz by simp
  have "S * dT * (a / \<bar>a\<bar>) / dT = S * (a / \<bar>a\<bar>)"
    using assms(1) by simp
  moreover have "\<bar>S * (a / \<bar>a\<bar>)\<bar> = \<bar>S\<bar> * \<bar>a / \<bar>a\<bar>\<bar>"
    by (rule abs_mult)
  ultimately have "\<bar>S * dT * (a / \<bar>a\<bar>) / dT\<bar> = \<bar>S\<bar>"
    using one by simp
  then show "\<bar>S * dT * (a / \<bar>a\<bar>) / dT\<bar> = S"
    using assms(2) by simp
  show "S * dT * (a / \<bar>a\<bar>) \<le> max a 0" if pos: "0 < dT"
  proof (cases "0 < a")
    case True
    have "S * dT < \<bar>a\<bar>"
      using assms(3) pos by (simp add: abs_divide pos_less_divide_eq)
    moreover have "a / \<bar>a\<bar> = 1" using True by simp
    ultimately show ?thesis using True by simp
  next
    case False
    with nz have "a / \<bar>a\<bar> = - 1" by simp
    moreover have "0 \<le> S * dT" using assms(2) pos by simp
    ultimately show ?thesis by simp
  qed
qed

lemma voltage_slew_limit_number:
  assumes "dT \<noteq> 0" and "0 \<le> dVdT_limit (ADRSettings sv)"
  shows "\<exists>d. voltage_slew_limit sv dT (Fin a) = Inr (Fin d)
     \<and> \<bar>d / dT\<bar> \<le> dVdT_limit (ADRSettings sv)
     \<and> (0 < dT \<longrightarrow> d \<le> max a 0)"
proof (cases "dVdT_limit (ADRSettings sv) < \<bar>a / dT\<bar>")
  case True
  note r = clamped_rate [OF assms True]
  have v: "voltage_slew_limit sv dT (Fin a)
      = Inr (Fin (dVdT_limit (ADRSettings sv) * dT * (a / \<bar>a\<bar>)))"
    using True assms(1) r(1) by (simp add: voltage_slew_limit_def)
  show ?thesis
  proof (intro exI conjI impI)
    show "voltage_slew_limit sv dT (Fin a)
      = Inr (Fin (dVdT_limit (ADRSettings sv) * dT * (a / \<bar>a\<bar>)))"
      by (rule v)
    show "\<bar>dVdT_limit (ADRSettings sv) * dT * (a / \<bar>a\<bar>) / dT\<bar>
        \<le> dVdT_limit (ADRSettings sv)"
      by (rule order_eq_refl [OF r(2)])
    show "dVdT_limit (ADRSettings sv) * dT * (a / \<bar>a\<bar>) \<le> max a 0" if "0 < dT"
      by (rule r(3) [OF that])
  qed
next
  case False
  then show ?thesis
    using assms(1) by (simp add: voltage_slew_limit_def)
qed

lemma current_slew_limit_number:
  assumes "dT \<noteq> 0"
  shows "\<exists>d. current_slew_limit sv dT dI (Fin a) = Inr (Fin d) \<and> (d = a \<or> d = 0)"
  using assms by (simp add: current_slew_limit_def fdiv_Fin_nz)

lemma clamped_dV_number:
  assumes t: "T_FAA (state sv) = Fin t" and t0: "T_FAA (lastState sv) = Fin t0"
    and c: "PID_cumulativeError (state sv) = Fin c"
    and dT: "dT \<noteq> 0" and S: "0 \<le> dVdT_limit (ADRSettings sv)"
  shows "\<exists>d. clamped_dV sv dT dI = Inr (Fin d)
     \<and> \<bar>d / dT\<bar> \<le> dVdT_limit (ADRSettings sv)
     \<and> (0 < dT \<longrightarrow> (\<forall>p. PSVoltage (state sv) = Fin p
            \<and> p \<le> voltage_limit (ADRSettings sv)
          \<longrightarrow> p + d \<le> voltage_limit (ADRSettings sv)))"
proof -
  let ?L = "voltage_limit (ADRSettings sv)"
  obtain d0 where d0: "pid_proposal sv dT = Inr (Fin d0)"
    using pid_proposal_number [OF t t0 c dT] by blast
  obtain d1 where d1: "hard_current_limit sv (Fin d0) = Fin d1"
    using hard_current_limit_number by blast
  obtain d2 where d2: "hard_voltage_limit sv (Fin d1) = Fin d2"
    and b2: "\<And>p. PSVoltage (state sv) = Fin p \<Longrightarrow> p + d2 \<le> ?L"
    using hard_voltage_limit_number [of sv d1] by blast
  obtain d3 where d3: "steady_state_decreasing sv (Fin d2) = Fin d3" and b3: "d3 \<le> max d2 0"
    using steady_state_decreasing_number by blast
  obtain d4 where d4: "steady_state_increasing sv (Fin d3) = Fin d4" and b4: "d4 \<le> max d3 0"
    using steady_state_increasing_number by blast
  obtain d5 where d5: "voltage_slew_limit sv dT (Fin d4) = Inr (Fin d5)"
    and r5: "\<bar>d5 / dT\<bar> \<le> dVdT_limit (ADRSettings sv)"
    and b5: "0 < dT \<Longrightarrow> d5 \<le> max d4 0"
    using voltage_slew_limit_number [OF dT S, of d4] by blast
  obtain d6 where d6: "current_slew_limit sv dT dI (Fin d5) = Inr (Fin d6)"
    and b6: "d6 = d5 \<or> d6 = 0"
    using current_slew_limit_number [OF dT, of sv dI d5] by blast
  have cl: "clamped_dV sv dT dI = Inr (Fin d6)"
    by (simp add: clamped_dV_def d0 d1 d2 d3 d4 d5 d6)
  have rate: "\<bar>d6 / dT\<bar> \<le> dVdT_limit (ADRSettings sv)"
    using b6 r5 S by auto
  have volt: "p + d6 \<le> ?L" if "0 < dT" "PSVoltage (state sv) = Fin p" "p \<le> ?L" for p
  proof -
    have "p + d2 \<le> ?L" using b2 that(2) by simp
    moreover have "d5 \<le> max d4 0" using b5 that(1) by simp
    ultimately show ?thesis using b3 b4 b6 that(3) by auto
  qed
  show ?thesis
    using cl rate volt by blast
qed

text \<open>
  Claim C2, as the spec states it, fails. The supply reads 2.5 V, above the limit of
  2 V: the hard voltage limit proposes a step of -0.5 V, the steady-state limit shrinks it
  to -0.05 V and the slew limit to -0.008 V, so the first pass of regulation writes
  2.492 V. A pass writes NaN, which is no voltage below the limit, when the FAA
  temperature of either snapshot, the accumulator or the supply voltage is NaN. After the
  clock was set back between the two polls the slew limit turns a step down into a step
  up, and the pass writes 2.008 V from 2 V. With a negative \<^verbatim>\<open>dVdT_limit\<close> the pass
  steps up by 1 V in one second, from 2 V to 3 V; with a negative \<^verbatim>\<open>voltage_limit\<close>
  the final pass writes 0 V, above the limit.
\<close>

theorem regulate_exceeds_voltage_limit:
  "voltage_limit (ADRSettings over_limit) = 2
   \<and> written_since over_limit (step over_limit (11500000, Regulate 0.1)) = [Fin 2.492]
   \<and> fgt (Fin 2.492) (Fin (voltage_limit (ADRSettings over_limit)))
   \<and> regulating (state faa_lost) \<and> T_FAA (state faa_lost) = NaN
   \<and> written_since faa_lost (step faa_lost (12500000, RegulateWakeup)) = [NaN]
   \<and> regulating (state faa_back) \<and> T_FAA (lastState faa_back) = NaN
   \<and> written_since faa_back (step faa_back (13500000, RegulateWakeup)) = [NaN]
   \<and> regulating (state supply_lost) \<and> PSVoltage (state supply_lost) = NaN
   \<and> written_since supply_lost (step supply_lost (12500000, RegulateWakeup)) = [NaN]
   \<and> PID_cumulativeError (state accumulator_lost) = NaN
   \<and> written_since accumulator_lost (step accumulator_lost (15500000, Regulate 0.1)) = [NaN]
   \<and> datetime (state clock_set_back) < datetime (lastState clock_set_back)
   \<and> PSVoltage (state clock_set_back) = Fin 2
   \<and> voltage_limit (ADRSettings clock_set_back) = 2
   \<and> written_since clock_set_back (step clock_set_back (10500000, Regulate 0.1))
       = [Fin 2.008]
   \<and> dVdT_limit (ADRSettings negative_slew_limit) = - 1
   \<and> PSVoltage (state negative_slew_limit) = Fin 2
   \<and> voltage_limit (ADRSettings negative_slew_limit) = 2
   \<and> elapsed negative_slew_limit = 1
   \<and> written_since negative_slew_limit (step negative_slew_limit (11500000, Regulate 0.1))
       = [Fin 3]
   \<and> voltage_limit (ADRSettings negative_voltage_limit) = - 1
   \<and> PSVoltage (state negative_voltage_limit) = Fin (- 2)
   \<and> written_since negative_voltage_limit
         (step negative_voltage_limit (11500000, Regulate 0.1)) = [Fin 0, Fin (- 2)]"
  by code_simp

text \<open>
  Claim C2, amended. In a pass of the regulation loop in which the FAA temperature of
  both snapshots and the accumulator are numbers and \<^verbatim>\<open>dVdT_limit\<close> is not negative,
  the pass returns and writes to the supply, and the last voltage it writes is the
  measured voltage plus a step \<open>dV\<close> with \<open>|dV / dt| \<le> dVdT_limit\<close>. If moreover the two
  snapshots are in time order, \<^verbatim>\<open>voltage_limit\<close> is not negative and the measured supply
  voltage is a number not above \<^verbatim>\<open>voltage_limit\<close>, every voltage the pass writes is a
  number not above \<^verbatim>\<open>voltage_limit\<close>.
\<close>

theorem regulate_cycle_bounds:
  assumes "regulating (state sv)"
    and "T_FAA (state sv) = Fin t" and "T_FAA (lastState sv) = Fin t0"
    and "PID_cumulativeError (state sv) = Fin c"
    and "0 \<le> dVdT_limit (ADRSettings sv)"
  shows "\<exists>sv' dV. regulate_cycle now sv = Returned sv'
     \<and> written_since sv sv' \<noteq> []
     \<and> last (written_since sv sv') = fadd (PSVoltage (state sv)) (Fin dV)
     \<and> \<bar>dV / elapsed sv\<bar> \<le> dVdT_limit (ADRSettings sv)
     \<and> (datetime (lastState sv) \<le> datetime (state sv)
          \<and> 0 \<le> voltage_limit (ADRSettings sv)
          \<and> (\<exists>p. PSVoltage (state sv) = Fin p \<and> p \<le> voltage_limit (ADRSettings sv))
        \<longrightarrow> (\<forall>v \<in> set (written_since sv sv').
               \<exists>x. v = Fin x \<and> x \<le> voltage_limit (ADRSettings sv)))"
proof -
  let ?sv2 = "regulate_accumulate now sv"
  let ?P = "PSVoltage (state sv)" and ?L = "voltage_limit (ADRSettings sv)"
  let ?S = "dVdT_limit (ADRSettings sv)"
  let ?dI = "fsub (PSCurrent (state sv)) (PSCurrent (lastState sv))"
  note keep = regulate_accumulate_keeps [of now sv]
  have t2: "T_FAA (state ?sv2) = Fin t" "T_FAA (lastState ?sv2) = Fin t0"
    "PID_cumulativeError (state ?sv2) = Fin (c + (regulationTemp (state sv) - t))"
    using assms(2-4) by (simp_all add: regulate_accumulate_def Let_def)
  obtain d where d: "clamped_dV ?sv2 (elapsed sv) ?dI = Inr (Fin d)"
    and rate: "\<bar>d / elapsed sv\<bar> \<le> ?S"
    and volt: "\<And>p. 0 < elapsed sv \<Longrightarrow> ?P = Fin p \<Longrightarrow> p \<le> ?L \<Longrightarrow> p + d \<le> ?L"
    using clamped_dV_number [OF t2 elapsed_nz [of sv], of ?dI] assms(5)
    by (auto simp add: keep)
  have cyc: "regulate_cycle now sv = Returned (apply_dV now (Fin d) ?sv2)"
    using assms(1) d by (simp add: regulate_cycle_def keep Let_def)
  have wr: "written_since sv (apply_dV now (Fin d) ?sv2) =
      (if fle (fadd ?P (Fin d)) (Fin 0) then [Fin 0, fadd ?P (Fin 0)] else [fadd ?P (Fin d)])"
    by (simp add: written_since_def apply_dV_writes keep)
  show ?thesis
  proof (cases "fle (fadd ?P (Fin d)) (Fin 0)")
    case True
    have "regulate_cycle now sv = Returned (apply_dV now (Fin d) ?sv2)
       \<and> written_since sv (apply_dV now (Fin d) ?sv2) \<noteq> []
       \<and> last (written_since sv (apply_dV now (Fin d) ?sv2)) = fadd ?P (Fin 0)
       \<and> \<bar>0 / elapsed sv\<bar> \<le> ?S
       \<and> (datetime (lastState sv) \<le> datetime (state sv) \<and> 0 \<le> ?L
            \<and> (\<exists>p. ?P = Fin p \<and> p \<le> ?L)
          \<longrightarrow> (\<forall>v \<in> set (written_since sv (apply_dV now (Fin d) ?sv2)).
                 \<exists>x. v = Fin x \<and> x \<le> ?L))"
      using cyc wr True assms(5) by auto
    then show ?thesis by blast
  next
    case False
    have "regulate_cycle now sv = Returned (apply_dV now (Fin d) ?sv2)
       \<and> written_since sv (apply_dV now (Fin d) ?sv2) \<noteq> []
       \<and> last (written_since sv (apply_dV now (Fin d) ?sv2)) = fadd ?P (Fin d)
       \<and> \<bar>d / elapsed sv\<bar> \<le> ?S
       \<and> (datetime (lastState sv) \<le> datetime (state sv) \<and> 0 \<le> ?L
            \<and> (\<exists>p. ?P = Fin p \<and> p \<le> ?L)
          \<longrightarrow> (\<forall>v \<in> set (written_since sv (apply_dV now (Fin d) ?sv2)).
                 \<exists>x. v = Fin x \<and> x \<le> ?L))"
      using cyc wr False rate volt elapsed_pos [of sv] by auto
    then show ?thesis by blast
  qed
qed


lemma is_regulating_facts:
  "regulating (state is_regulating)"
  "T_FAA (state is_regulating) = Fin 0.05"
  "T_FAA (lastState is_regulating) = Fin 0.05"
  "PID_cumulativeError (state is_regulating) = Fin 0.05"
  "0 \<le> dVdT_limit (ADRSettings is_regulating)"
  "datetime (lastState is_regulating) \<le> datetime (state is_regulating)"
  "voltage_limit (ADRSettings is_regulating) = 2"
  "PSVoltage (state is_regulating) = Fin 1"
  by code_simp+

theorem regulate_cycle_bounds_witness:
  "regulating (state is_regulating)
   \<and> T_FAA (state is_regulating) = Fin 0.05 \<and> T_FAA (lastState is_regulating) = Fin 0.05
   \<and> PID_cumulativeError (state is_regulating) = Fin 0.05
   \<and> 0 \<le> dVdT_limit (ADRSettings is_regulating)
   \<and> datetime (lastState is_regulating) \<le> datetime (state is_regulating)
   \<and> PSVoltage (state is_regulating) = Fin 1
   \<and> fle (last (written_since is_regulating
            (server_of (regulate_cycle 12500000 is_regulating)))) (Fin 2)"
proof -
  obtain sv' where sv': "regulate_cycle 12500000 is_regulating = Returned sv'"
    "written_since is_regulating sv' \<noteq> []"
    "datetime (lastState is_regulating) \<le> datetime (state is_regulating)
       \<and> 0 \<le> voltage_limit (ADRSettings is_regulating)
       \<and> (\<exists>p. PSVoltage (state is_regulating) = Fin p
              \<and> p \<le> voltage_limit (ADRSettings is_regulating))
     \<longrightarrow> (\<forall>v \<in> set (written_since is_regulating sv').
            \<exists>x. v = Fin x \<and> x \<le> voltage_limit (ADRSettings is_regulating))"
    using regulate_cycle_bounds [OF is_regulating_facts(1-5), of 12500000] by blast
  have "\<forall>v \<in> set (written_since is_regulating sv'). \<exists>x. v = Fin x \<and> x \<le> 2"
    using sv'(3) is_regulating_facts by simp
  then obtain x where "last (written_since is_regulating sv') = Fin x" "x \<le> 2"
    using sv'(2) last_in_set by blast
  then show ?thesis
    using sv'(1) is_regulating_facts by simp
qed

section \<open>The ramp of the mag-up\<close>

lemma magUp_cycle_ps:
  "PSCurrent (state (server_of (magUp_cycle now sv))) = PSCurrent (state sv)"
  "PSVoltage (state (server_of (magUp_cycle now sv))) = PSVoltage (state sv)"
  by (simp_all add: magUp_cycle_def Let_def split: sum.splits bool.splits)

lemma magUp_ps:
  "PSCurrent (state (server_of (magUp now sv))) = PSCurrent (state sv)"
  "PSVoltage (state (server_of (magUp now sv))) = PSVoltage (state sv)"
  by (simp_all add: magUp_def magUp_cycle_ps Let_def)

lemma regulate_cycle_ps:
  "PSCurrent (state (server_of (regulate_cycle now sv))) = PSCurrent (state sv)"
  "PSVoltage (state (server_of (regulate_cycle now sv))) = PSVoltage (state sv)"
  by (simp_all add: regulate_cycle_def state_apply_dV regulate_accumulate_keeps Let_def
      split: sum.splits)

lemma regulate_ps:
  "PSCurrent (state (server_of (regulate now temp sv))) = PSCurrent (state sv)"
  "PSVoltage (state (server_of (regulate now temp sv))) = PSVoltage (state sv)"
  by (simp_all add: regulate_def regulate_cycle_ps regulate_begin_state)

lemma read_ps_pair:
  "(PSCurrent (read_ps inp st) = NaN) = (PSVoltage (read_ps inp st) = NaN)"
  by (simp add: read_ps_def ps_failed_def split: reading.splits)

lemma step_ps_pair:
  assumes "(PSCurrent (state sv) = NaN) = (PSVoltage (state sv) = NaN)"
  shows "(PSCurrent (state (step sv (now, e))) = NaN) = (PSVoltage (state (step sv (now, e))) = NaN)"
proof (cases e)
  case (UpdateState inp)
  then show ?thesis by (simp add: state_updateState read_ps_pair)
next
  case (InitializeInstruments a b c d)
  then show ?thesis using assms by (simp add: initializeInstruments_state)
next
  case (AddToLog m)
  then show ?thesis using assms by (simp add: addToLog_def split: option.splits)
qed (use assms in \<open>simp_all add: magUp_ps magUp_cycle_ps regulate_ps regulate_cycle_ps
      cancelMagUp_def cancelRegulate_def setPIDKP_def setPIDKI_def setPIDKD_def Let_def\<close>)

lemma run_ps_pair:
  "(PSCurrent (state (run t0 evs)) = NaN) = (PSVoltage (state (run t0 evs)) = NaN)"
proof (induction evs rule: rev_induct)
  case Nil
  show ?case by (simp add: run_def init_server_def init_state_def)
next
  case (snoc e evs)
  obtain now ev where e: "e = (now, ev)" by (cases e)
  show ?case unfolding run_snoc e by (rule step_ps_pair [OF snoc])
qed

lemma magUp_may_raise_voltage_eq:
  "magUp_may_raise_voltage sv = Inr (ramp_allowed sv)"
  by (cases "magnetV (state sv)"; cases "PSCurrent (state sv)";
      cases "PSCurrent (lastState sv)")
     (simp_all add: magUp_may_raise_voltage_def ramp_allowed_def fdiv_Fin_nz elapsed_nz Let_def)

lemma magUp_cycle_below_limit:
  assumes "maggingUp (state sv)" and "PSCurrent (state sv) = Fin i"
    and "i < current_limit (ADRSettings sv)" and "PSVoltage (state sv) = Fin p"
  shows "magUp_cycle now sv =
     (if ramp_allowed sv
      then Returned (ps_voltage_set
             (Fin (min (p + magup_dV (ADRSettings sv)) (voltage_limit (ADRSettings sv)))) sv)
      else Returned sv)"
  using assms
  by (simp add: magUp_cycle_def magUp_may_raise_voltage_eq Let_def min_def)

text \<open>
  Claim C4. In a pass of the mag-up loop reached from the construction of the server,
  with the supply current a number below \<^verbatim>\<open>current_limit\<close>, the supply voltage is
  a number \<open>p\<close> too. If the back-EMF is below \<^verbatim>\<open>magnet_voltage_limit\<close> and
  \<open>|dI/dt|\<close> is below \<^verbatim>\<open>dIdt_magup_limit\<close>, the pass writes \<open>p + magup_dV\<close>
  clamped to \<^verbatim>\<open>voltage_limit\<close>, a step of at most \<^verbatim>\<open>magup_dV\<close>, and nothing else
  changes; otherwise the pass changes nothing and writes nothing.
\<close>

theorem magUp_cycle_step:
  assumes "maggingUp (state (run t0 evs))"
    and "PSCurrent (state (run t0 evs)) = Fin i"
    and "i < current_limit (ADRSettings (run t0 evs))"
  shows "\<exists>p. PSVoltage (state (run t0 evs)) = Fin p
     \<and> (ramp_allowed (run t0 evs) \<longrightarrow>
          magUp_cycle now (run t0 evs) =
            Returned (ps_voltage_set
              (Fin (min (p + magup_dV (ADRSettings (run t0 evs)))
                        (voltage_limit (ADRSettings (run t0 evs))))) (run t0 evs))
          \<and> min (p + magup_dV (ADRSettings (run t0 evs)))
                 (voltage_limit (ADRSettings (run t0 evs))) - p
              \<le> magup_dV (ADRSettings (run t0 evs)))
     \<and> (\<not> ramp_allowed (run t0 evs) \<longrightarrow>
          magUp_cycle now (run t0 evs) = Returned (run t0 evs))"
proof -
  obtain p where p: "PSVoltage (state (run t0 evs)) = Fin p"
    using run_ps_pair [of t0 evs] assms(2) by (cases "PSVoltage (state (run t0 evs))") auto
  have "min (p + magup_dV (ADRSettings (run t0 evs)))
            (voltage_limit (ADRSettings (run t0 evs))) - p
          \<le> magup_dV (ADRSettings (run t0 evs))"
    by linarith
  then show ?thesis
    using magUp_cycle_below_limit [OF assms p, of now] p by simp
qed

lemma ramp_facts:
  "maggingUp (state ramp_started)" "PSCurrent (state ramp_started) = Fin 0"
  "0 < current_limit (ADRSettings ramp_started)"
  "PSVoltage (state ramp_started) = Fin 0" "ramp_allowed ramp_started"
  "magup_dV (ADRSettings ramp_started) = 0.003" "voltage_limit (ADRSettings ramp_started) = 2"
  "maggingUp (state ramp_held)" "PSCurrent (state ramp_held) = Fin 0"
  "0 < current_limit (ADRSettings ramp_held)" "\<not> ramp_allowed ramp_held"
  by code_simp+

theorem magUp_cycle_step_witness:
  "maggingUp (state ramp_started) \<and> PSCurrent (state ramp_started) = Fin 0
   \<and> 0 < current_limit (ADRSettings ramp_started) \<and> ramp_allowed ramp_started
   \<and> written_since ramp_started (server_of (magUp_cycle 12500000 ramp_started)) = [Fin 0.003]
   \<and> maggingUp (state ramp_held) \<and> PSCurrent (state ramp_held) = Fin 0
   \<and> 0 < current_limit (ADRSettings ramp_held) \<and> \<not> ramp_allowed ramp_held
   \<and> written_since ramp_held (server_of (magUp_cycle 12500000 ramp_held)) = []"
proof -
  note s = magUp_cycle_step [of 0 "connect_and_poll 0.05 0 0 0.05 @ [(11500000, MagUp)]" 0
      12500000, folded ramp_started_def, OF ramp_facts(1) ramp_facts(2) ramp_facts(3)]
  note h = magUp_cycle_step [of 0 "connect_and_poll 0.05 0 0 0.1 @ [(11500000, MagUp)]" 0
      12500000, folded ramp_held_def, OF ramp_facts(8) ramp_facts(9) ramp_facts(10)]
  have 1: "magUp_cycle 12500000 ramp_started = Returned (ps_voltage_set (Fin 0.003) ramp_started)"
    using s ramp_facts by simp
  have 2: "magUp_cycle 12500000 ramp_held = Returned ramp_held"
    using h ramp_facts by simp
  show ?thesis
    by (simp add: 1 2 ramp_facts written_since_def ps_voltage_set_def)
qed

end
